theory Spec2Isabelle
  imports Main
begin

section \<open>Python values\<close>

text \<open>
  A Python \<open>str\<close> is a sequence of Unicode code points, so a string is a list of
  code points. The literals of \<open>bot.py\<close> that are pure ASCII are written with
  \<open>asc\<close>; the Cyrillic ones are written out as the code points of the literal,
  with an English gloss beside them.
\<close>

type_synonym ustr = "nat list"

definition asc :: "string \<Rightarrow> ustr" where
  "asc s = map of_char s"

text \<open>
  What \<open>response.json()\<close> returns and what \<open>json=params\<close> sends: a JSON value.
  An object is the list of its bindings in order, read with \<open>map_of\<close> (a Python
  dict has one binding per key). Numbers are the integers: in each operation the
  program applies to a value (truth value, \<open>in\<close>, \<open>len\<close>, indexing, iteration) a
  fractional number behaves as an integer does.
\<close>

datatype json =
    JNull
  | JBool bool
  | JInt int
  | JStr ustr
  | JArr "json list"
  | JObj "(ustr \<times> json) list"

text \<open>
  The exceptions that can leave a function of \<open>bot.py\<close>. All are subclasses of
  \<open>Exception\<close> except \<open>asyncio.CancelledError\<close>, which derives from
  \<open>BaseException\<close> and so passes through \<open>except Exception\<close>.
\<close>

datatype exn = KeyError | IndexError | TypeError | AttributeError | TelegramError | CancelledError


text \<open>Truth value of a JSON value in a Python condition.\<close>

fun truthy :: "json \<Rightarrow> bool" where
  "truthy JNull = False"
| "truthy (JBool b) = b"
| "truthy (JInt n) = (n \<noteq> 0)"
| "truthy (JStr s) = (s \<noteq> [])"
| "truthy (JArr xs) = (xs \<noteq> [])"
| "truthy (JObj kvs) = (kvs \<noteq> [])"

text \<open>\<open>p in s\<close> for two strings: \<open>p\<close> occurs in \<open>s\<close> as a substring.\<close>

fun contains_str :: "ustr \<Rightarrow> ustr \<Rightarrow> bool" where
  "contains_str p [] = (p = [])"
| "contains_str p (c # cs) = (take (length p) (c # cs) = p \<or> contains_str p cs)"

text \<open>
  \<open>k in data\<close> for a string \<open>k\<close>: key membership on a dict, element membership on a
  list, substring on a string, \<open>TypeError\<close> on anything else.
\<close>

fun py_in :: "ustr \<Rightarrow> json \<Rightarrow> exn + bool" where
  "py_in k (JObj kvs) = Inr (k \<in> set (map fst kvs))"
| "py_in k (JArr xs) = Inr (JStr k \<in> set xs)"
| "py_in k (JStr s) = Inr (contains_str k s)"
| "py_in k _ = Inl TypeError"

text \<open>\<open>data[k]\<close> for a string \<open>k\<close>: only a dict can be indexed by a string.\<close>

fun py_getitem :: "json \<Rightarrow> ustr \<Rightarrow> exn + json" where
  "py_getitem (JObj kvs) k = (case map_of kvs k of None \<Rightarrow> Inl KeyError | Some v \<Rightarrow> Inr v)"
| "py_getitem _ k = Inl TypeError"

text \<open>
  \<open>x[0]\<close>: the first element of a list or string (\<open>IndexError\<close> when empty); on a dict
  parsed from JSON the key \<open>0\<close> is never present, since keys are strings.
\<close>

fun py_getitem0 :: "json \<Rightarrow> exn + json" where
  "py_getitem0 (JArr []) = Inl IndexError"
| "py_getitem0 (JArr (x # xs)) = Inr x"
| "py_getitem0 (JStr []) = Inl IndexError"
| "py_getitem0 (JStr (c # cs)) = Inr (JStr [c])"
| "py_getitem0 (JObj kvs) = Inl KeyError"
| "py_getitem0 _ = Inl TypeError"

text \<open>\<open>x.get(k, d)\<close>: only a dict has the method.\<close>

fun py_get :: "json \<Rightarrow> ustr \<Rightarrow> json \<Rightarrow> exn + json" where
  "py_get (JObj kvs) k d = Inr (case map_of kvs k of None \<Rightarrow> d | Some v \<Rightarrow> v)"
| "py_get _ k d = Inl AttributeError"

fun py_len :: "json \<Rightarrow> exn + nat" where
  "py_len (JArr xs) = Inr (length xs)"
| "py_len (JStr s) = Inr (length s)"
| "py_len (JObj kvs) = Inr (length kvs)"
| "py_len _ = Inl TypeError"

text \<open>
  What \<open>for lead in leads\<close> iterates over: the elements of a list, the keys of a dict,
  the one-character strings of a string.
\<close>

fun py_iter :: "json \<Rightarrow> exn + json list" where
  "py_iter (JArr xs) = Inr xs"
| "py_iter (JObj kvs) = Inr (map (\<lambda>kv. JStr (fst kv)) kvs)"
| "py_iter (JStr s) = Inr (map (\<lambda>c. JStr [c]) s)"
| "py_iter _ = Inl TypeError"

text \<open>\<open>s.split(c)\<close> for a one-character separator.\<close>

fun split_on :: "nat \<Rightarrow> ustr \<Rightarrow> ustr list" where
  "split_on c [] = [[]]"
| "split_on c (x # xs) =
     (if x = c then [] # split_on c xs
      else (case split_on c xs of [] \<Rightarrow> [[x]] | p # ps \<Rightarrow> (x # p) # ps))"

definition py_index1 :: "'a list \<Rightarrow> exn + 'a" where
  "py_index1 xs = (case xs of _ # y # _ \<Rightarrow> Inr y | _ \<Rightarrow> Inl IndexError)"

definition startswith :: "ustr \<Rightarrow> ustr \<Rightarrow> bool" where
  "startswith s p = (take (length p) s = p)"

section \<open>The outside world\<close>

text \<open>
  \<open>requests.post\<close> either raises a \<open>RequestException\<close> (no connection, timeout, bad
  URL) or returns a response with a status code and a body; the body is \<open>None\<close> when
  it is not JSON, else the parsed value.
\<close>

datatype http_outcome = TransportError | Response nat "json option"

text \<open>
  A Telegram call (\<open>send_message\<close>, \<open>edit_text\<close>, \<open>answer\<close>) returns, raises an
  error of the API or the network, or is where a cancellation of the running task
  arrives.
\<close>

datatype tg_outcome = TgOk | TgFailed | TgCancelled

text \<open>An inline keyboard: rows of buttons, each a text and its callback data.\<close>

type_synonym keyboard = "(ustr \<times> ustr) list list"

datatype tg_request =
    SendMessage ustr ustr "keyboard option" "ustr option"
  | EditText ustr "ustr option"
  | CallbackAnswer ustr
  | MessageAnswer ustr

datatype level = INFO | ERROR

text \<open>
  Everything the program does to the outside, in order: each HTTP request with its URL,
  JSON payload and outcome, each log record, each Telegram call with its outcome, each
  task created (with its interval) or cancelled, each sleep.
\<close>

datatype effect =
    HttpPost ustr json http_outcome
  | Log level
  | Tg tg_request tg_outcome
  | CreateTask nat nat
  | CancelTask nat
  | Sleep nat

text \<open>
  The environment fixes the configuration read at start-up and how the outside answers:
  the outcome of the k-th HTTP request, of the k-th Telegram call, the k-th reading of
  the clock (microseconds since the epoch), and whether the k-th sleep is cancelled.
  \<open>isoformat\<close> is \<open>datetime.isoformat\<close>; \<open>str_other\<close> is Python's \<open>str()\<close> on a
  value that is not a string.
\<close>

record env =
  BITRIX_WEBHOOK :: ustr
  MANAGER_TELEGRAM_ID :: ustr
  http_script :: "nat \<Rightarrow> http_outcome"
  tg_script :: "nat \<Rightarrow> tg_outcome"
  clock_script :: "nat \<Rightarrow> int"
  sleep_script :: "nat \<Rightarrow> bool"
  isoformat :: "int \<Rightarrow> ustr"
  str_other :: "json \<Rightarrow> ustr"

text \<open>
  The state: the effects so far, how many answers of each script are used up, the
  global \<open>periodic_check_task\<close> (the identifier of a task, or \<open>None\<close>), the tasks
  that are not done, and the number of tasks created.
\<close>

record world =
  trace :: "effect list"
  n_http :: nat
  n_tg :: nat
  n_clock :: nat
  n_sleep :: nat
  periodic_check_task :: "nat option"
  running :: "nat set"
  n_tasks :: nat

definition emit :: "effect \<Rightarrow> world \<Rightarrow> world" where
  "emit e w = w\<lparr>trace := trace w @ [e]\<rparr>"

definition logging :: "level \<Rightarrow> world \<Rightarrow> world" where
  "logging l w = emit (Log l) w"

definition datetime_now :: "env \<Rightarrow> world \<Rightarrow> int \<times> world" where
  "datetime_now en w = (clock_script en (n_clock w), w\<lparr>n_clock := Suc (n_clock w)\<rparr>)"

definition requests_post :: "env \<Rightarrow> ustr \<Rightarrow> json \<Rightarrow> world \<Rightarrow> http_outcome \<times> world" where
  "requests_post en url params w =
     (let h = http_script en (n_http w)
      in (h, emit (HttpPost url params h) (w\<lparr>n_http := Suc (n_http w)\<rparr>)))"

definition tg_call :: "env \<Rightarrow> tg_request \<Rightarrow> world \<Rightarrow> (exn + unit) \<times> world" where
  "tg_call en rq w =
     (let a = tg_script en (n_tg w);
          w' = emit (Tg rq a) (w\<lparr>n_tg := Suc (n_tg w)\<rparr>)
      in (case a of
            TgOk \<Rightarrow> (Inr (), w')
          | TgFailed \<Rightarrow> (Inl TelegramError, w')
          | TgCancelled \<Rightarrow> (Inl CancelledError, w')))"

definition py_str :: "env \<Rightarrow> json \<Rightarrow> ustr" where
  "py_str en v = (case v of JStr s \<Rightarrow> s | _ \<Rightarrow> str_other en v)"

definition two_hours :: int where
  "two_hours = 2 * 60 * 60 * 1000000"

definition markdown :: ustr where
  "markdown = asc ''Markdown''"

section \<open>CRM gateway\<close>

text \<open>
  \<open>response.raise_for_status()\<close> raises \<open>HTTPError\<close>, a \<open>RequestException\<close>, on a
  status from 400 to 599 and on no other. \<open>response.json()\<close> on a body that is not
  JSON raises \<open>requests.exceptions.JSONDecodeError\<close>, a \<open>RequestException\<close> as well
  (requests 2.27 and later), so the \<open>except\<close> clause of each gateway function
  catches it.
\<close>

definition raise_for_status :: "nat \<Rightarrow> bool" where
  "raise_for_status status = (400 \<le> status \<and> status < 600)"

definition overdue_params :: "env \<Rightarrow> int \<Rightarrow> json" where
  "overdue_params en now =
     JObj [(asc ''order'', JObj [(asc ''DATE_CREATE'', JStr (asc ''ASC''))]),
           (asc ''filter'', JObj [(asc ''STATUS_ID'', JStr (asc ''NEW'')),
                                  (asc ''<DATE_CREATE'', JStr (isoformat en (now - two_hours)))]),
           (asc ''select'', JArr [JStr (asc ''ID''), JStr (asc ''TITLE''), JStr (asc ''PHONE'')])]"

text \<open>
  \<open>get_overdue_leads\<close>: \<open>Inr None\<close> is the Python \<open>None\<close>, \<open>Inr (Some v)\<close> a returned
  value, \<open>Inl e\<close> an exception that is not a \<open>RequestException\<close> and leaves the
  function.
\<close>

definition get_overdue_leads :: "env \<Rightarrow> world \<Rightarrow> (exn + json option) \<times> world" where
  "get_overdue_leads en w =
     (let url = BITRIX_WEBHOOK en @ asc ''crm.lead.list'' in
      case datetime_now en w of (now, w1) \<Rightarrow>
     (case requests_post en url (overdue_params en now) w1 of
        (TransportError, w2) \<Rightarrow> (Inr None, logging ERROR w2)
      | (Response status body, w2) \<Rightarrow>
          (if raise_for_status status then (Inr None, logging ERROR w2)
           else (case body of
             None \<Rightarrow> (Inr None, logging ERROR w2)
           | Some data \<Rightarrow>
               (case py_in (asc ''result'') data of
                  Inl e \<Rightarrow> (Inl e, w2)
                | Inr False \<Rightarrow> (Inr (Some (JArr [])), logging INFO w2)
                | Inr True \<Rightarrow>
                    (case py_getitem data (asc ''result'') of
                       Inl e \<Rightarrow> (Inl e, w2)
                     | Inr leads \<Rightarrow>
                         (if truthy leads then
                            (case py_len leads of
                               Inl e \<Rightarrow> (Inl e, w2)
                             | Inr n \<Rightarrow> (Inr (Some leads), logging INFO w2))
                          else (Inr (Some (JArr [])), logging INFO w2))))))))"

text \<open>
  \<open>add_comment_to_lead\<close> and \<open>create_task_for_lead\<close> log the success before they
  parse the body, and return \<open>None\<close> on every failure. They return what
  \<open>response.json()\<close> gives, and for the body \<open>null\<close> that is Python's \<open>None\<close> too.
\<close>

definition py_value :: "json \<Rightarrow> json option" where
  "py_value data = (case data of JNull \<Rightarrow> None | _ \<Rightarrow> Some data)"

definition add_comment_to_lead :: "env \<Rightarrow> ustr \<Rightarrow> ustr \<Rightarrow> world \<Rightarrow> json option \<times> world" where
  "add_comment_to_lead en lead_id text w =
     (let url = BITRIX_WEBHOOK en @ asc ''crm.timeline.comment.add'';
          params = JObj [(asc ''fields'',
                     JObj [(asc ''ENTITY_ID'', JStr lead_id),
                           (asc ''ENTITY_TYPE'', JStr (asc ''lead'')),
                           (asc ''COMMENT'', JStr text)])]
      in case requests_post en url params w of
           (TransportError, w1) \<Rightarrow> (None, logging ERROR w1)
         | (Response status body, w1) \<Rightarrow>
             (if raise_for_status status then (None, logging ERROR w1)
              else let w2 = logging INFO w1
                   in (case body of
                         None \<Rightarrow> (None, logging ERROR w2)
                       | Some data \<Rightarrow> (py_value data, w2))))"

text \<open>The title of the follow-up task: "Contact the client about lead No." and the identifier.\<close>

definition task_title :: ustr where
  "task_title = [1057, 1074, 1103, 1079, 1072, 1090, 1100, 1089, 1103, 32, 1089, 32, 1082, 1083,
     1080, 1077, 1085, 1090, 1086, 1084, 32, 1087, 1086, 32, 1083, 1080, 1076, 1091, 32,
     8470]"

definition create_task_for_lead :: "env \<Rightarrow> ustr \<Rightarrow> world \<Rightarrow> json option \<times> world" where
  "create_task_for_lead en lead_id w =
     (let url = BITRIX_WEBHOOK en @ asc ''tasks.task.add'' in
      case datetime_now en w of (now, w0) \<Rightarrow>
     (let deadline = isoformat en (now + two_hours);
          params = JObj [(asc ''fields'',
                     JObj [(asc ''TITLE'', JStr (task_title @ lead_id)),
                           (asc ''RESPONSIBLE_ID'', JInt 1),
                           (asc ''DEADLINE'', JStr deadline),
                           (asc ''UF_CRM_TASK'', JArr [JStr (asc ''L_'' @ lead_id)])])]
      in case requests_post en url params w0 of
           (TransportError, w1) \<Rightarrow> (None, logging ERROR w1)
         | (Response status body, w1) \<Rightarrow>
             (if raise_for_status status then (None, logging ERROR w1)
              else let w2 = logging INFO w1
                   in (case body of
                         None \<Rightarrow> (None, logging ERROR w2)
                       | Some data \<Rightarrow> (py_value data, w2)))))"

section \<open>Notification dispatcher\<close>

text \<open>
  The button texts: a check mark and "Called", a speech balloon and "Wrote", an
  hourglass and "Postpone 2 hours".
\<close>

definition btn_called :: ustr where
  "btn_called = [9989, 32, 1055, 1086, 1079, 1074, 1086, 1085, 1080, 1083]"

definition btn_wrote :: ustr where
  "btn_wrote = [128172, 32, 1053, 1072, 1087, 1080, 1089, 1072, 1083]"

definition btn_delay :: ustr where
  "btn_delay = [9203, 32, 1054, 1090, 1083, 1086, 1078, 1080, 1090, 1100, 32, 50, 32, 1095,
     1072, 1089, 1072]"

definition get_lead_keyboard :: "env \<Rightarrow> json \<Rightarrow> keyboard" where
  "get_lead_keyboard en lead_id =
     [[(btn_called, asc ''called:'' @ py_str en lead_id),
       (btn_wrote, asc ''wrote:'' @ py_str en lead_id),
       (btn_delay, asc ''delay:'' @ py_str en lead_id)]]"

text \<open>
  The operator-facing texts: "Could not connect to Bitrix24. Check the settings or the
  API."; the pieces of the lead message ("Overdue lead!", "ID:", "Title:", "Phone:",
  with the Markdown marks and line breaks of the literal); and the default of the phone
  number, "not given".
\<close>

definition msg_crm_unreachable :: ustr where
  "msg_crm_unreachable = [1053, 1077, 32, 1091, 1076, 1072, 1083, 1086, 1089, 1100, 32, 1087,
     1086, 1076, 1082, 1083, 1102, 1095, 1080, 1090, 1100, 1089, 1103, 32, 1082, 32, 66, 105,
     116, 114, 105, 120, 50, 52, 46, 32, 1055, 1088, 1086, 1074, 1077, 1088, 1100, 1090, 1077,
     32, 1085, 1072, 1089, 1090, 1088, 1086, 1081, 1082, 1080, 32, 1080, 1083, 1080, 32, 65,
     80, 73, 46]"

definition text_head :: ustr where
  "text_head = [42, 42, 1055, 1088, 1086, 1089, 1088, 1086, 1095, 1077, 1085, 1085, 1099, 1081,
     32, 1083, 1080, 1076, 33, 42, 42, 10, 10, 42, 42, 73, 68, 58, 42, 42, 32, 96]"

definition text_title :: ustr where
  "text_title = [96, 10, 42, 42, 1053, 1072, 1079, 1074, 1072, 1085, 1080, 1077, 58, 42, 42,
     32]"

definition text_phone :: ustr where
  "text_phone = [10, 42, 42, 1058, 1077, 1083, 1077, 1092, 1086, 1085, 58, 42, 42, 32, 96]"

definition text_tail :: ustr where
  "text_tail = [10, 96]"

definition phone_not_given :: ustr where
  "phone_not_given = [1085, 1077, 32, 1091, 1082, 1072, 1079, 1072, 1085]"

text \<open>
  The first half of the loop body of \<open>send_leads_to_manager\<close>: the three fields of a
  lead and the text made of them. The result is the identifier and the text, or the
  exception of the first lookup that fails.
\<close>

definition lead_text :: "env \<Rightarrow> json \<Rightarrow> exn + json \<times> ustr" where
  "lead_text en lead =
     (case py_getitem lead (asc ''ID'') of
        Inl e \<Rightarrow> Inl e
      | Inr lead_id \<Rightarrow>
     (case py_getitem lead (asc ''TITLE'') of
        Inl e \<Rightarrow> Inl e
      | Inr title \<Rightarrow>
     (case py_get lead (asc ''PHONE'') (JArr [JObj []]) of
        Inl e \<Rightarrow> Inl e
      | Inr phones \<Rightarrow>
     (case py_getitem0 phones of
        Inl e \<Rightarrow> Inl e
      | Inr first \<Rightarrow>
     (case py_get first (asc ''VALUE'') (JStr phone_not_given) of
        Inl e \<Rightarrow> Inl e
      | Inr phone \<Rightarrow>
          Inr (lead_id,
               text_head @ py_str en lead_id @ text_title @ py_str en title
                 @ text_phone @ py_str en phone @ text_tail))))))"

text \<open>The \<open>for\<close> loop: an exception in the body leaves the loop and the function.\<close>

fun send_each :: "env \<Rightarrow> json list \<Rightarrow> world \<Rightarrow> (exn + unit) \<times> world" where
  "send_each en [] w = (Inr (), w)"
| "send_each en (lead # rest) w =
     (case lead_text en lead of
        Inl e \<Rightarrow> (Inl e, w)
      | Inr (lead_id, text) \<Rightarrow>
          (case tg_call en (SendMessage (MANAGER_TELEGRAM_ID en) text
                              (Some (get_lead_keyboard en lead_id)) (Some markdown)) w of
             (Inl e, w1) \<Rightarrow> (Inl e, w1)
           | (Inr u, w1) \<Rightarrow> send_each en rest w1))"

definition send_leads_to_manager :: "env \<Rightarrow> world \<Rightarrow> (exn + unit) \<times> world" where
  "send_leads_to_manager en w =
     (case get_overdue_leads en w of
        (Inl e, w1) \<Rightarrow> (Inl e, w1)
      | (Inr None, w1) \<Rightarrow>
          tg_call en (SendMessage (MANAGER_TELEGRAM_ID en) msg_crm_unreachable None None) w1
      | (Inr (Some leads), w1) \<Rightarrow>
          (if \<not> truthy leads then (Inr (), w1)
           else (case py_iter leads of
                   Inl e \<Rightarrow> (Inl e, w1)
                 | Inr items \<Rightarrow> send_each en items w1)))"

section \<open>Action handlers\<close>

text \<open>
  What a handler reads of its \<open>CallbackQuery\<close>: the callback data and the text of the
  message the button is under.
\<close>

record callback_query =
  cb_data :: ustr
  cb_message_text :: ustr

text \<open>
  The timeline comments, "The manager called the client." and "The manager wrote to the
  client."; the status lines put under the message, "Status: handled (call)", "Status:
  handled (wrote)" and "Status: call-back task created", each after two line breaks and
  between asterisks; and the answers to the tap, "Marked the call for lead", "Marked the
  message for lead" and "Created a task for lead", each followed by the identifier.
\<close>

definition comment_called :: ustr where
  "comment_called = [1052, 1077, 1085, 1077, 1076, 1078, 1077, 1088, 32, 1087, 1086, 1079, 1074,
     1086, 1085, 1080, 1083, 32, 1082, 1083, 1080, 1077, 1085, 1090, 1091, 46]"

definition comment_wrote :: ustr where
  "comment_wrote = [1052, 1077, 1085, 1077, 1076, 1078, 1077, 1088, 32, 1085, 1072, 1087, 1080,
     1089, 1072, 1083, 32, 1082, 1083, 1080, 1077, 1085, 1090, 1091, 46]"

definition status_called :: ustr where
  "status_called = [10, 10, 42, 1057, 1090, 1072, 1090, 1091, 1089, 58, 32, 9989, 32, 1054,
     1073, 1088, 1072, 1073, 1086, 1090, 1072, 1085, 32, 40, 1079, 1074, 1086, 1085, 1086,
     1082, 41, 42]"

definition status_wrote :: ustr where
  "status_wrote = [10, 10, 42, 1057, 1090, 1072, 1090, 1091, 1089, 58, 32, 128172, 32, 1054,
     1073, 1088, 1072, 1073, 1086, 1090, 1072, 1085, 32, 40, 1085, 1072, 1087, 1080, 1089,
     1072, 1083, 41, 42]"

definition status_delay :: ustr where
  "status_delay = [10, 10, 42, 1057, 1090, 1072, 1090, 1091, 1089, 58, 32, 9203, 32, 1047, 1072,
     1076, 1072, 1095, 1072, 32, 1085, 1072, 32, 1087, 1077, 1088, 1077, 1079, 1074, 1086,
     1085, 32, 1089, 1086, 1079, 1076, 1072, 1085, 1072, 42]"

definition ack_called :: ustr where
  "ack_called = [1054, 1090, 1084, 1077, 1090, 1080, 1083, 1080, 32, 1079, 1074, 1086, 1085,
     1086, 1082, 32, 1087, 1086, 32, 1083, 1080, 1076, 1091, 32]"

definition ack_wrote :: ustr where
  "ack_wrote = [1054, 1090, 1084, 1077, 1090, 1080, 1083, 1080, 32, 1089, 1086, 1086, 1073,
     1097, 1077, 1085, 1080, 1077, 32, 1087, 1086, 32, 1083, 1080, 1076, 1091, 32]"

definition ack_delay :: ustr where
  "ack_delay = [1057, 1086, 1079, 1076, 1072, 1085, 1072, 32, 1079, 1072, 1076, 1072, 1095,
     1072, 32, 1076, 1083, 1103, 32, 1083, 1080, 1076, 1072, 32]"

definition process_callback_called :: "env \<Rightarrow> callback_query \<Rightarrow> world \<Rightarrow> (exn + unit) \<times> world" where
  "process_callback_called en callback w =
     (case py_index1 (split_on 58 (cb_data callback)) of
        Inl e \<Rightarrow> (Inl e, w)
      | Inr lead_id \<Rightarrow>
     (case add_comment_to_lead en lead_id comment_called w of (r, w1) \<Rightarrow>
     (case tg_call en (EditText (cb_message_text callback @ status_called) (Some markdown)) w1 of
        (Inl e, w2) \<Rightarrow> (Inl e, w2)
      | (Inr u, w2) \<Rightarrow> tg_call en (CallbackAnswer (ack_called @ lead_id)) w2)))"

definition process_callback_wrote :: "env \<Rightarrow> callback_query \<Rightarrow> world \<Rightarrow> (exn + unit) \<times> world" where
  "process_callback_wrote en callback w =
     (case py_index1 (split_on 58 (cb_data callback)) of
        Inl e \<Rightarrow> (Inl e, w)
      | Inr lead_id \<Rightarrow>
     (case add_comment_to_lead en lead_id comment_wrote w of (r, w1) \<Rightarrow>
     (case tg_call en (EditText (cb_message_text callback @ status_wrote) (Some markdown)) w1 of
        (Inl e, w2) \<Rightarrow> (Inl e, w2)
      | (Inr u, w2) \<Rightarrow> tg_call en (CallbackAnswer (ack_wrote @ lead_id)) w2)))"

definition process_callback_delay :: "env \<Rightarrow> callback_query \<Rightarrow> world \<Rightarrow> (exn + unit) \<times> world" where
  "process_callback_delay en callback w =
     (case py_index1 (split_on 58 (cb_data callback)) of
        Inl e \<Rightarrow> (Inl e, w)
      | Inr lead_id \<Rightarrow>
     (case create_task_for_lead en lead_id w of (r, w1) \<Rightarrow>
     (case tg_call en (EditText (cb_message_text callback @ status_delay) (Some markdown)) w1 of
        (Inl e, w2) \<Rightarrow> (Inl e, w2)
      | (Inr u, w2) \<Rightarrow> tg_call en (CallbackAnswer (ack_delay @ lead_id)) w2)))"

text \<open>
  The dispatcher's routing of a callback query by the three \<open>F.data.startswith\<close>
  filters, in the order of registration; a query that matches none is not handled.
\<close>

definition dispatch_callback :: "env \<Rightarrow> callback_query \<Rightarrow> world \<Rightarrow> (exn + unit) \<times> world" where
  "dispatch_callback en callback w =
     (if startswith (cb_data callback) (asc ''called:'') then process_callback_called en callback w
      else if startswith (cb_data callback) (asc ''wrote:'') then process_callback_wrote en callback w
      else if startswith (cb_data callback) (asc ''delay:'') then process_callback_delay en callback w
      else (Inr (), w))"

section \<open>Scheduler\<close>



text \<open>
  The replies of the two commands: "Periodic check is already on.", "Periodic check is
  already off.", "Turned the periodic check of leads on." and "Turned the periodic check
  of leads off.", the last two followed by a line naming the opposite command.
\<close>

definition msg_already_on :: ustr where
  "msg_already_on = [1055, 1077, 1088, 1080, 1086, 1076, 1080, 1095, 1077, 1089, 1082, 1072,
     1103, 32, 1087, 1088, 1086, 1074, 1077, 1088, 1082, 1072, 32, 1091, 1078, 1077, 32, 1074,
     1082, 1083, 1102, 1095, 1077, 1085, 1072, 46]"

definition msg_already_off :: ustr where
  "msg_already_off = [1055, 1077, 1088, 1080, 1086, 1076, 1080, 1095, 1077, 1089, 1082, 1072,
     1103, 32, 1087, 1088, 1086, 1074, 1077, 1088, 1082, 1072, 32, 1091, 1078, 1077, 32, 1074,
     1099, 1082, 1083, 1102, 1095, 1077, 1085, 1072, 46]"

definition msg_turned_on :: ustr where
  "msg_turned_on = [1042, 1082, 1083, 1102, 1095, 1080, 1083, 32, 1087, 1077, 1088, 1080, 1086,
     1076, 1080, 1095, 1077, 1089, 1082, 1091, 1102, 32, 1087, 1088, 1086, 1074, 1077, 1088,
     1082, 1091, 32, 1083, 1080, 1076, 1086, 1074, 46, 10, 1048, 1089, 1087, 1086, 1083, 1100,
     1079, 1091, 1081, 32, 47, 116, 117, 114, 110, 95, 111, 102, 102, 95, 112, 101, 114, 105,
     111, 100, 105, 99, 95, 99, 104, 101, 99, 107, 32, 1095, 1090, 1086, 1073, 1099, 32, 1074,
     1099, 1082, 1083, 1102, 1095, 1080, 1090, 1100, 32, 1087, 1077, 1088, 1080, 1086, 1076,
     1080, 1095, 1077, 1089, 1082, 1091, 1102, 32, 1087, 1088, 1086, 1074, 1077, 1088, 1082,
     1091, 32, 1083, 1080, 1076, 1086, 1074, 10]"

definition msg_turned_off :: ustr where
  "msg_turned_off = [1042, 1099, 1082, 1083, 1102, 1095, 1080, 1083, 32, 1087, 1077, 1088, 1080,
     1086, 1076, 1080, 1095, 1077, 1089, 1082, 1091, 1102, 32, 1087, 1088, 1086, 1074, 1077,
     1088, 1082, 1091, 32, 1083, 1080, 1076, 1086, 1074, 46, 10, 1048, 1089, 1087, 1086, 1083,
     1100, 1079, 1091, 1081, 32, 47, 116, 117, 114, 110, 95, 111, 110, 95, 112, 101, 114, 105,
     111, 100, 105, 99, 95, 99, 104, 101, 99, 107, 32, 1095, 1090, 1086, 1073, 1099, 32, 1074,
     1082, 1083, 1102, 1095, 1080, 1090, 1100, 32, 1087, 1077, 1088, 1080, 1086, 1076, 1080,
     1095, 1077, 1089, 1082, 1091, 1102, 32, 1087, 1088, 1086, 1074, 1077, 1088, 1082, 1091,
     32, 1083, 1080, 1076, 1086, 1074, 10]"

text \<open>\<open>task.done()\<close>: the task has returned, raised or been cancelled.\<close>

definition task_done :: "world \<Rightarrow> nat \<Rightarrow> bool" where
  "task_done w t = (t \<notin> running w)"

text \<open>\<open>asyncio.create_task\<close> gives a new task, which counts as not done from then on.\<close>

definition create_task :: "nat \<Rightarrow> world \<Rightarrow> nat \<times> world" where
  "create_task interval_seconds w =
     (let t = n_tasks w
      in (t, emit (CreateTask t interval_seconds)
               (w\<lparr>running := insert t (running w), n_tasks := Suc t\<rparr>)))"

text \<open>\<open>task.cancel()\<close>: the task runs no further iteration.\<close>

definition cancel :: "nat \<Rightarrow> world \<Rightarrow> world" where
  "cancel t w = emit (CancelTask t) (w\<lparr>running := running w - {t}\<rparr>)"

definition turn_on_periodic_check :: "env \<Rightarrow> world \<Rightarrow> (exn + unit) \<times> world" where
  "turn_on_periodic_check en w =
     (if (case periodic_check_task w of None \<Rightarrow> False | Some t \<Rightarrow> \<not> task_done w t)
      then tg_call en (MessageAnswer msg_already_on) w
      else (case create_task 10 w of
              (t, w1) \<Rightarrow>
                tg_call en (MessageAnswer msg_turned_on) (w1\<lparr>periodic_check_task := Some t\<rparr>)))"

definition turn_off_periodic_check :: "env \<Rightarrow> world \<Rightarrow> (exn + unit) \<times> world" where
  "turn_off_periodic_check en w =
     (case periodic_check_task w of
        None \<Rightarrow> tg_call en (MessageAnswer msg_already_off) w
      | Some t \<Rightarrow>
          (if task_done w t then tg_call en (MessageAnswer msg_already_off) w
           else tg_call en (MessageAnswer msg_turned_off)
                  ((cancel t w)\<lparr>periodic_check_task := None\<rparr>)))"

text \<open>
  The start of the process, and what can happen to the scheduler handle afterwards:
  one of the two commands arrives, or a task ends without the command (it can only end
  by an exception that is not an \<open>Exception\<close>).
\<close>

definition init_world :: world where
  "init_world = \<lparr>trace = [], n_http = 0, n_tg = 0, n_clock = 0, n_sleep = 0,
                  periodic_check_task = None, running = {}, n_tasks = 0\<rparr>"

datatype event = TurnOn | TurnOff | TaskEnds nat

fun step :: "env \<Rightarrow> event \<Rightarrow> world \<Rightarrow> world" where
  "step en TurnOn w = snd (turn_on_periodic_check en w)"
| "step en TurnOff w = snd (turn_off_periodic_check en w)"
| "step en (TaskEnds t) w = w\<lparr>running := running w - {t}\<rparr>"

fun run_events :: "env \<Rightarrow> event list \<Rightarrow> world \<Rightarrow> world" where
  "run_events en [] w = w"
| "run_events en (ev # evs) w = run_events en evs (step en ev w)"

definition loop_active :: "world \<Rightarrow> bool" where
  "loop_active w = (case periodic_check_task w of None \<Rightarrow> False | Some t \<Rightarrow> t \<in> running w)"

section \<open>Reading a trace\<close>

text \<open>The Telegram calls and the HTTP requests of a trace, in order.\<close>

fun tg_requests :: "effect list \<Rightarrow> tg_request list" where
  "tg_requests [] = []"
| "tg_requests (Tg rq a # es) = rq # tg_requests es"
| "tg_requests (e # es) = tg_requests es"

fun http_requests :: "effect list \<Rightarrow> (ustr \<times> json) list" where
  "http_requests [] = []"
| "http_requests (HttpPost url params h # es) = (url, params) # http_requests es"
| "http_requests (e # es) = http_requests es"


text \<open>
  The request a gateway function turns into \<open>None\<close>: the transport fails, the status
  is an error status, or the body is not JSON.
\<close>

definition request_fails :: "http_outcome \<Rightarrow> bool" where
  "request_fails h =
     (case h of TransportError \<Rightarrow> True | Response s b \<Rightarrow> raise_for_status s \<or> b = None)"

text \<open>The message \<open>send_leads_to_manager\<close> sends for a lead, when the lead has one.\<close>

definition lead_message :: "env \<Rightarrow> json \<Rightarrow> tg_request option" where
  "lead_message en lead =
     (case lead_text en lead of
        Inl e \<Rightarrow> None
      | Inr (lead_id, text) \<Rightarrow>
          Some (SendMessage (MANAGER_TELEGRAM_ID en) text
                  (Some (get_lead_keyboard en lead_id)) (Some markdown)))"

text \<open>
  The three kinds of action with their handler, the prefix of their callback data,
  the status line they put under the message and the answer to the tap.
\<close>

datatype action = Called | Wrote | Delay

fun handler :: "action \<Rightarrow> env \<Rightarrow> callback_query \<Rightarrow> world \<Rightarrow> (exn + unit) \<times> world" where
  "handler Called = process_callback_called"
| "handler Wrote = process_callback_wrote"
| "handler Delay = process_callback_delay"

fun action_prefix :: "action \<Rightarrow> ustr" where
  "action_prefix Called = asc ''called:''"
| "action_prefix Wrote = asc ''wrote:''"
| "action_prefix Delay = asc ''delay:''"

fun status_label :: "action \<Rightarrow> ustr" where
  "status_label Called = status_called"
| "status_label Wrote = status_wrote"
| "status_label Delay = status_delay"

fun ack_text :: "action \<Rightarrow> ustr" where
  "ack_text Called = ack_called"
| "ack_text Wrote = ack_wrote"
| "ack_text Delay = ack_delay"

text \<open>
  The error condition of the gateway as the specification words it: a transport
  failure, a response that is not 2xx, or a body that is malformed or not a success
  body (a success body of the lead list is an object whose \<open>result\<close> is a list).
\<close>

definition success_body :: "json \<Rightarrow> bool" where
  "success_body d =
     (case d of
        JObj kvs \<Rightarrow> (case map_of kvs (asc ''result'') of Some (JArr ls) \<Rightarrow> True | _ \<Rightarrow> False)
      | _ \<Rightarrow> False)"

definition spec_gateway_error :: "http_outcome \<Rightarrow> bool" where
  "spec_gateway_error h =
     (case h of
        TransportError \<Rightarrow> True
      | Response s b \<Rightarrow>
          \<not> (200 \<le> s \<and> s < 300) \<or> (case b of None \<Rightarrow> True | Some d \<Rightarrow> \<not> success_body d))"

section \<open>Example inputs\<close>

text \<open>
  Concrete leads, response bodies and environments. In the example environments every
  HTTP request gets the same outcome, the clock advances by a second at each reading
  and no sleep is cancelled; \<open>demo_isoformat\<close> and \<open>demo_str\<close> stand in for the two
  library functions, about which the theorems assume nothing.
\<close>

definition lead_42 :: json where
  "lead_42 = JObj [(asc ''ID'', JStr (asc ''42'')), (asc ''TITLE'', JStr (asc ''Acme Corp''))]"

definition lead_7 :: json where
  "lead_7 = JObj [(asc ''ID'', JStr (asc ''7'')), (asc ''TITLE'', JStr (asc ''Beta Ltd'')),
                  (asc ''PHONE'', JArr [JObj [(asc ''ID'', JStr (asc ''15'')),
                                              (asc ''VALUE_TYPE'', JStr (asc ''WORK'')),
                                              (asc ''VALUE'', JStr (asc ''+15550100'')),
                                              (asc ''TYPE_ID'', JStr (asc ''PHONE''))]])]"

definition lead_9 :: json where
  "lead_9 = JObj [(asc ''ID'', JStr (asc ''9'')), (asc ''TITLE'', JStr (asc ''Gamma LLC''))]"

definition lead_no_phones :: json where
  "lead_no_phones = JObj [(asc ''ID'', JStr (asc ''11'')), (asc ''TITLE'', JStr (asc ''Delta'')),
                          (asc ''PHONE'', JArr [])]"

definition result_body :: "json list \<Rightarrow> json" where
  "result_body ls = JObj [(asc ''result'', JArr ls), (asc ''total'', JInt (int (length ls)))]"

definition error_body :: json where
  "error_body = JObj [(asc ''error'', JStr (asc ''INTERNAL_SERVER_ERROR'')),
                      (asc ''error_description'', JStr (asc ''Internal server error''))]"

definition tg_all_ok :: "nat \<Rightarrow> tg_outcome" where
  "tg_all_ok k = TgOk"

definition tg_fails_at :: "nat \<Rightarrow> nat \<Rightarrow> tg_outcome" where
  "tg_fails_at n k = (if k = n then TgFailed else TgOk)"

definition http_always :: "http_outcome \<Rightarrow> nat \<Rightarrow> http_outcome" where
  "http_always h k = h"

definition demo_clock :: "nat \<Rightarrow> int" where
  "demo_clock k = 1762180000000000 + 1000000 * int k"

definition never_cancelled :: "nat \<Rightarrow> bool" where
  "never_cancelled k = False"

definition demo_isoformat :: "int \<Rightarrow> ustr" where
  "demo_isoformat t = asc ''T+'' @ replicate (nat (t div 3600000000 mod 24)) 104"

definition demo_str :: "json \<Rightarrow> ustr" where
  "demo_str v = asc ''<value>''"

definition demo_env :: "http_outcome \<Rightarrow> (nat \<Rightarrow> tg_outcome) \<Rightarrow> env" where
  "demo_env h tg =
     \<lparr>BITRIX_WEBHOOK = asc ''https://example.bitrix24.ru/rest/1/token/'',
      MANAGER_TELEGRAM_ID = asc ''100200300'',
      http_script = http_always h, tg_script = tg,
      clock_script = demo_clock, sleep_script = never_cancelled,
      isoformat = demo_isoformat, str_other = demo_str\<rparr>"

definition tap :: "action \<Rightarrow> ustr \<Rightarrow> ustr \<Rightarrow> callback_query" where
  "tap a lead_id text = \<lparr>cb_data = action_prefix a @ lead_id, cb_message_text = text\<rparr>"

definition text_42 :: ustr where
  "text_42 = text_head @ asc ''42'' @ text_title @ asc ''Acme Corp'' @ text_phone
               @ phone_not_given @ text_tail"

definition env_first_send_fails :: env where
  "env_first_send_fails =
     demo_env (Response 200 (Some (result_body [lead_42, lead_7]))) (tg_fails_at 0)"

definition env_second_send_fails :: env where
  "env_second_send_fails =
     demo_env (Response 200 (Some (result_body [lead_42, lead_7, lead_9]))) (tg_fails_at 1)"

definition env_crm_down :: env where
  "env_crm_down = demo_env TransportError tg_all_ok"

definition env_edit_refused :: env where
  "env_edit_refused = demo_env TransportError (tg_fails_at 0)"

definition env_no_leads :: env where
  "env_no_leads = demo_env (Response 200 (Some (result_body []))) tg_all_ok"

definition env_two_leads :: env where
  "env_two_leads = demo_env (Response 200 (Some (result_body [lead_42, lead_7]))) tg_all_ok"

definition env_send_refused :: env where
  "env_send_refused =
     demo_env (Response 200 (Some (result_body [lead_7, lead_42]))) (tg_fails_at 0)"

definition env_empty_phone_list :: env where
  "env_empty_phone_list =
     demo_env (Response 200 (Some (result_body [lead_42, lead_no_phones, lead_7]))) tg_all_ok"

section \<open>Auxiliary notions of the proofs\<close>

text \<open>
  The invariant of the scheduler handle: a task that is not done is the one the global
  names, and was created earlier.
\<close>

definition sched_inv :: "world \<Rightarrow> bool" where
  "sched_inv w =
     (running w \<subseteq> set_option (periodic_check_task w) \<and> (\<forall>t\<in>running w. t < n_tasks w))"


section \<open>Basic facts\<close>

lemmas prim_defs = datetime_now_def requests_post_def emit_def logging_def tg_call_def

lemma asc_eq_iff: "(asc a = asc b) = (a = b)"
  unfolding asc_def by (rule inj_map_eq_map[OF inj_of_char])

lemmas example_defs = demo_env_def http_always_def tg_all_ok_def tg_fails_at_def demo_clock_def
  never_cancelled_def demo_isoformat_def demo_str_def init_world_def result_body_def
  lead_42_def lead_7_def lead_9_def lead_no_phones_def error_body_def tap_def

lemmas env_defs = env_crm_down_def env_edit_refused_def env_no_leads_def env_two_leads_def env_send_refused_def
  env_empty_phone_list_def env_first_send_fails_def env_second_send_fails_def

lemmas fetch_defs = get_overdue_leads_def raise_for_status_def overdue_params_def prim_defs Let_def

lemmas render_defs = lead_text_def lead_message_def get_lead_keyboard_def py_str_def

lemma tg_requests_ok: "tg_requests (map (\<lambda>m. Tg m TgOk) msgs) = msgs"
  by (induction msgs) simp_all

lemma py_in_obj: "py_in k (JObj kvs) = Inr (map_of kvs k \<noteq> None)"
  by (simp add: map_of_eq_None_iff)

lemma tg_requests_append: "tg_requests (xs @ ys) = tg_requests xs @ tg_requests ys"
  by (induction xs rule: tg_requests.induct) simp_all

lemma http_requests_append: "http_requests (xs @ ys) = http_requests xs @ http_requests ys"
  by (induction xs rule: http_requests.induct) simp_all


section \<open>The lead-list request and its outcomes\<close>

text \<open>
  C8. Whatever the outcome, \<open>get_overdue_leads\<close> adds to the trace exactly one HTTP
  request, followed by at most one log record. The request goes to the webhook's
  \<open>crm.lead.list\<close>; its filter has the two entries \<open>STATUS_ID = NEW\<close> and
  \<open><DATE_CREATE\<close> = the clock at the call less 7200000000 microseconds (two hours),
  its order the one entry \<open>DATE_CREATE: ASC\<close>, its selection the three fields
  \<open>ID\<close>, \<open>TITLE\<close>, \<open>PHONE\<close>, and it has no other part.
\<close>

theorem get_overdue_leads_request:
  "trace (snd (get_overdue_leads en w)) \<in> (\<lambda>logs.
     trace w @ HttpPost (BITRIX_WEBHOOK en @ asc ''crm.lead.list'')
       (JObj [(asc ''order'', JObj [(asc ''DATE_CREATE'', JStr (asc ''ASC''))]),
              (asc ''filter'',
                 JObj [(asc ''STATUS_ID'', JStr (asc ''NEW'')),
                       (asc ''<DATE_CREATE'',
                          JStr (isoformat en (clock_script en (n_clock w) - 7200000000)))]),
              (asc ''select'',
                 JArr [JStr (asc ''ID''), JStr (asc ''TITLE''), JStr (asc ''PHONE'')])])
       (http_script en (n_http w)) # logs) ` {[], [Log INFO], [Log ERROR]}"
  by (simp add: get_overdue_leads_def prim_defs overdue_params_def two_hours_def Let_def
      split: http_outcome.split option.split sum.split bool.split prod.split)

lemma get_overdue_leads_none:
  "(fst (get_overdue_leads en w) = Inr None) = request_fails (http_script en (n_http w))"
  by (simp add: get_overdue_leads_def prim_defs request_fails_def Let_def
      split: http_outcome.split option.split sum.split bool.split prod.split)

lemma get_overdue_leads_empty:
  "http_script en (n_http w) = Response s (Some (JObj kvs)) \<Longrightarrow>
   (fst (get_overdue_leads en w) = Inr (Some (JArr []))) =
     (\<not> (400 \<le> s \<and> s < 600) \<and>
      (case map_of kvs (asc ''result'') of None \<Rightarrow> True | Some v \<Rightarrow> \<not> truthy v))"
  by (auto simp add: get_overdue_leads_def prim_defs raise_for_status_def Let_def py_in_obj
      simp del: py_in.simps
      split: http_outcome.split option.split sum.split bool.split prod.split)

text \<open>
  C2, as stated, fails: a response with status 200 whose body is an error object is an
  error by the claim's wording, and \<open>get_overdue_leads\<close> returns the empty list for
  it, the value it returns when no lead matches.
\<close>

theorem error_body_read_as_no_leads:
  "spec_gateway_error (http_script (demo_env (Response 200 (Some error_body)) tg_all_ok) 0)
   \<and> fst (get_overdue_leads (demo_env (Response 200 (Some error_body)) tg_all_ok) init_world)
       = Inr (Some (JArr []))"
  by (simp add: get_overdue_leads_def prim_defs Let_def demo_env_def http_always_def
      init_world_def error_body_def spec_gateway_error_def success_body_def
      raise_for_status_def asc_def)

text \<open>
  C2, amended. \<open>get_overdue_leads\<close> returns \<open>None\<close> exactly when the transport fails,
  the status is from 400 to 599, or the body is not JSON. For a body that is a JSON
  object it returns the empty list exactly when the status is not from 400 to 599 and
  the object has no \<open>result\<close> or a \<open>result\<close> that counts as false (an error object
  under such a status included). \<open>None\<close> and the empty list are different values.
\<close>

theorem get_overdue_leads_outcomes:
  "(fst (get_overdue_leads en w) = Inr None) =
     (case http_script en (n_http w) of
        TransportError \<Rightarrow> True
      | Response s b \<Rightarrow> (400 \<le> s \<and> s < 600) \<or> b = None)
   \<and> (http_script en (n_http w) = Response s (Some (JObj kvs)) \<longrightarrow>
        (fst (get_overdue_leads en w) = Inr (Some (JArr []))) =
          (\<not> (400 \<le> s \<and> s < 600) \<and>
           (case map_of kvs (asc ''result'') of None \<Rightarrow> True | Some v \<Rightarrow> \<not> truthy v)))
   \<and> (Inr None :: exn + json option) \<noteq> Inr (Some (JArr []))"
  using get_overdue_leads_none[of en w] get_overdue_leads_empty[of en w s kvs]
  by (simp add: request_fails_def raise_for_status_def split: http_outcome.split)

theorem get_overdue_leads_outcomes_witness:
  "http_script (demo_env (Response 200 (Some error_body)) tg_all_ok) (n_http init_world)
     = Response 200 (Some (JObj [(asc ''error'', JStr (asc ''INTERNAL_SERVER_ERROR'')),
                      (asc ''error_description'', JStr (asc ''Internal server error''))]))
   \<and> fst (get_overdue_leads (demo_env (Response 200 (Some error_body)) tg_all_ok) init_world)
       = Inr (Some (JArr []))
   \<and> fst (get_overdue_leads (demo_env (Response 200 (Some error_body)) tg_all_ok) init_world)
       \<noteq> Inr None"
  using get_overdue_leads_outcomes[of "demo_env (Response 200 (Some error_body)) tg_all_ok"
     init_world 200
     "[(asc ''error'', JStr (asc ''INTERNAL_SERVER_ERROR'')),
       (asc ''error_description'', JStr (asc ''Internal server error''))]"]
  by (simp add: demo_env_def http_always_def init_world_def error_body_def asc_def)

section \<open>What the fetch leaves unchanged, and what it can raise\<close>

lemma get_overdue_leads_n_tg: "n_tg (snd (get_overdue_leads en w)) = n_tg w"
  by (simp add: get_overdue_leads_def prim_defs Let_def
      split: http_outcome.split option.split sum.split bool.split prod.split)



lemma get_overdue_leads_tg_requests:
  "tg_requests (trace (snd (get_overdue_leads en w))) = tg_requests (trace w)"
  by (simp add: get_overdue_leads_def prim_defs Let_def tg_requests_append
      split: http_outcome.split option.split sum.split bool.split prod.split)










section \<open>The loop over the leads\<close>

lemma send_each_prefix:
  "map (lead_message en) pre = map Some msgs \<Longrightarrow>
   (\<forall>i<length pre. tg_script en (n_tg w + i) = TgOk) \<Longrightarrow>
   send_each en (pre @ rest) w =
     send_each en rest (w\<lparr>n_tg := n_tg w + length pre,
                          trace := trace w @ map (\<lambda>m. Tg m TgOk) msgs\<rparr>)"
proof (induction pre arbitrary: w msgs)
  case Nil
  then show ?case by simp
next
  case (Cons lead pre)
  from Cons.prems(1) obtain m ms where msgs: "msgs = m # ms"
    and m: "lead_message en lead = Some m" and ms: "map (lead_message en) pre = map Some ms"
    by (cases msgs) auto
  from Cons.prems(2) have ok0: "tg_script en (n_tg w) = TgOk" by force
  let ?w1 = "w\<lparr>n_tg := Suc (n_tg w), trace := trace w @ [Tg m TgOk]\<rparr>"
  have step: "send_each en ((lead # pre) @ rest) w = send_each en (pre @ rest) ?w1"
    using m ok0 by (auto simp: lead_message_def prim_defs Let_def split: sum.splits prod.splits)
  have "\<forall>i<length pre. tg_script en (n_tg ?w1 + i) = TgOk"
    using Cons.prems(2) by force
  from Cons.IH[OF ms this] step show ?case
    by (simp add: msgs)
qed

lemma send_leads_to_manager_list:
  assumes "fst (get_overdue_leads en w) = Inr (Some (JArr items))"
  shows "send_leads_to_manager en w = send_each en items (snd (get_overdue_leads en w))"
  using assms
  by (cases "get_overdue_leads en w"; cases items) (simp_all add: send_leads_to_manager_def)

lemma send_each_first_send_fails:
  "lead_message en lead = Some m \<Longrightarrow> tg_script en (n_tg w) \<noteq> TgOk \<Longrightarrow>
   send_each en (lead # post) w =
     (Inl (if tg_script en (n_tg w) = TgFailed then TelegramError else CancelledError),
      w\<lparr>n_tg := Suc (n_tg w), trace := trace w @ [Tg m (tg_script en (n_tg w))]\<rparr>)"
  by (cases "tg_script en (n_tg w)")
     (auto simp: lead_message_def prim_defs Let_def split: sum.splits)

lemma send_each_render_raises:
  "lead_text en lead = Inl e \<Longrightarrow> send_each en (lead # post) w = (Inl e, w)"
  by simp

text \<open>
  C1, as stated, fails: the fetch returns two leads that both have a message, the send
  for the first raises, and the send for the second is never made.
\<close>

theorem first_send_failure_drops_second_lead:
  "fst (get_overdue_leads env_first_send_fails init_world) = Inr (Some (JArr [lead_42, lead_7]))
   \<and> fst (send_leads_to_manager env_first_send_fails init_world) = Inl TelegramError
   \<and> map Some (tg_requests (trace (snd (send_leads_to_manager env_first_send_fails init_world))))
       = [lead_message env_first_send_fails lead_42]
   \<and> lead_message env_first_send_fails lead_7 \<noteq> None"
proof -
  let ?E = env_first_send_fails
  let ?w1 = "snd (get_overdue_leads ?E init_world)"
  have f: "fst (get_overdue_leads ?E init_world) = Inr (Some (JArr [lead_42, lead_7]))"
    by (simp add: env_first_send_fails_def fetch_defs example_defs asc_eq_iff)
  have "lead_message ?E lead_42 \<noteq> None"
    by (simp add: render_defs lead_42_def asc_eq_iff)
  then obtain m where m: "lead_message ?E lead_42 = Some m" by blast
  have m7: "lead_message ?E lead_7 \<noteq> None"
    by (simp add: render_defs lead_7_def asc_eq_iff)
  have bad: "tg_script ?E (n_tg ?w1) \<noteq> TgOk" and failed: "tg_script ?E (n_tg ?w1) = TgFailed"
    by (simp_all add: get_overdue_leads_n_tg env_first_send_fails_def example_defs)
  have run: "send_leads_to_manager ?E init_world =
      (Inl TelegramError, ?w1\<lparr>n_tg := Suc (n_tg ?w1), trace := trace ?w1 @ [Tg m TgFailed]\<rparr>)"
    using send_leads_to_manager_list[OF f] send_each_first_send_fails[OF m bad, of "[lead_7]"]
    by (simp add: failed)
  have t0: "tg_requests (trace ?w1) = []"
    by (simp add: get_overdue_leads_tg_requests init_world_def)
  show ?thesis
    by (simp add: f run m m7 tg_requests_append t0)
qed

text \<open>
  C1, amended. The leads are handled in the order of the list. When the leads before
  one have been sent and the send for that one does not return, the exception leaves
  \<open>send_leads_to_manager\<close>: its result is the exception, and the Telegram calls of the
  cycle are the messages up to and including that lead, with none for a later lead.
\<close>

theorem send_failure_ends_cycle:
  assumes "fst (get_overdue_leads en w) = Inr (Some (JArr (pre @ lead # post)))"
    and "map (lead_message en) pre = map Some msgs"
    and "\<forall>i<length pre. tg_script en (n_tg w + i) = TgOk"
    and "lead_message en lead = Some m"
    and "tg_script en (n_tg w + length pre) \<noteq> TgOk"
  shows "fst (send_leads_to_manager en w) =
           Inl (if tg_script en (n_tg w + length pre) = TgFailed then TelegramError
                else CancelledError)
         \<and> tg_requests (trace (snd (send_leads_to_manager en w))) =
             tg_requests (trace w) @ msgs @ [m]"
proof -
  let ?w1 = "snd (get_overdue_leads en w)"
  let ?w2 = "?w1\<lparr>n_tg := n_tg ?w1 + length pre,
                    trace := trace ?w1 @ map (\<lambda>m. Tg m TgOk) msgs\<rparr>"
  have ok: "\<forall>i<length pre. tg_script en (n_tg ?w1 + i) = TgOk"
    using assms(3) by (simp add: get_overdue_leads_n_tg)
  have "send_leads_to_manager en w = send_each en (pre @ lead # post) ?w1"
    by (rule send_leads_to_manager_list[OF assms(1)])
  also have "\<dots> = send_each en (lead # post) ?w2"
    by (rule send_each_prefix[OF assms(2) ok])
  finally have run: "send_leads_to_manager en w = send_each en (lead # post) ?w2" .
  have bad: "tg_script en (n_tg ?w2) \<noteq> TgOk"
    using assms(5) by (simp add: get_overdue_leads_n_tg)
  have sent: "tg_requests (map (\<lambda>m. Tg m TgOk) msgs) = msgs"
    by (induction msgs) simp_all
  show ?thesis
    unfolding run send_each_first_send_fails[OF assms(4) bad]
    by (simp add: get_overdue_leads_n_tg tg_requests_append get_overdue_leads_tg_requests sent)
qed

text \<open>
  The theorem at three fetched leads, where the second send is refused.
\<close>

theorem send_failure_ends_cycle_witness:
  "fst (get_overdue_leads env_second_send_fails init_world) =
     Inr (Some (JArr ([lead_42] @ lead_7 # [lead_9])))
   \<and> tg_script env_second_send_fails (n_tg init_world + 0) = TgOk
   \<and> tg_script env_second_send_fails (n_tg init_world + length [lead_42]) \<noteq> TgOk
   \<and> fst (send_leads_to_manager env_second_send_fails init_world) = Inl TelegramError
   \<and> map Some (tg_requests (trace (snd (send_leads_to_manager env_second_send_fails init_world))))
       = [lead_message env_second_send_fails lead_42, lead_message env_second_send_fails lead_7]
   \<and> lead_message env_second_send_fails lead_9 \<noteq> None"
proof -
  let ?E = env_second_send_fails
  have f: "fst (get_overdue_leads ?E init_world) = Inr (Some (JArr ([lead_42] @ lead_7 # [lead_9])))"
    by (simp add: env_defs fetch_defs example_defs asc_eq_iff)
  have "lead_message ?E lead_42 \<noteq> None" "lead_message ?E lead_7 \<noteq> None"
    by (simp_all add: render_defs lead_42_def lead_7_def asc_eq_iff)
  then obtain m1 m2 where m: "lead_message ?E lead_42 = Some m1" "lead_message ?E lead_7 = Some m2"
    by blast
  have m9: "lead_message ?E lead_9 \<noteq> None"
    by (simp add: render_defs lead_9_def asc_eq_iff)
  have pre: "map (lead_message ?E) [lead_42] = map Some [m1]" by (simp add: m)
  have ok: "\<forall>i<length [lead_42]. tg_script ?E (n_tg init_world + i) = TgOk"
    by (simp add: env_defs example_defs)
  have bad: "tg_script ?E (n_tg init_world + length [lead_42]) \<noteq> TgOk"
    by (simp add: env_defs example_defs)
  have t0: "tg_requests (trace init_world) = []" by (simp add: init_world_def)
  have failed: "tg_script ?E (n_tg init_world + length [lead_42]) = TgFailed"
    and first: "tg_script ?E (n_tg init_world + 0) = TgOk"
    by (simp_all add: env_defs example_defs)
  from send_failure_ends_cycle[OF f pre ok m(2) bad] f bad m9 first failed show ?thesis
    by (simp add: m t0)
qed

text \<open>
  C3, as stated, fails in its last part: two leads are fetched, the first send is
  refused, and the cycle has made one send, not two.
\<close>

theorem two_leads_fetched_one_message_sent:
  "fst (get_overdue_leads env_send_refused init_world) = Inr (Some (JArr [lead_7, lead_42]))
   \<and> fst (send_leads_to_manager env_send_refused init_world) = Inl TelegramError
   \<and> length (tg_requests (trace (snd (send_leads_to_manager env_send_refused init_world)))) = 1"
proof -
  let ?E = env_send_refused
  let ?w1 = "snd (get_overdue_leads ?E init_world)"
  have f: "fst (get_overdue_leads ?E init_world) = Inr (Some (JArr [lead_7, lead_42]))"
    by (simp add: env_defs fetch_defs example_defs asc_eq_iff)
  have "lead_message ?E lead_7 \<noteq> None"
    by (simp add: render_defs lead_7_def asc_eq_iff)
  then obtain m where m: "lead_message ?E lead_7 = Some m" by blast
  have bad: "tg_script ?E (n_tg ?w1) \<noteq> TgOk" and failed: "tg_script ?E (n_tg ?w1) = TgFailed"
    by (simp_all add: get_overdue_leads_n_tg env_defs example_defs)
  have run: "send_leads_to_manager ?E init_world =
      (Inl TelegramError, ?w1\<lparr>n_tg := Suc (n_tg ?w1), trace := trace ?w1 @ [Tg m TgFailed]\<rparr>)"
    using send_leads_to_manager_list[OF f] send_each_first_send_fails[OF m bad, of "[lead_42]"]
    by (simp add: failed)
  have t0: "tg_requests (trace ?w1) = []"
    by (simp add: get_overdue_leads_tg_requests init_world_def)
  show ?thesis
    by (simp add: f run tg_requests_append t0)
qed

text \<open>
  C3, amended. When the fetch returns \<open>None\<close>, the cycle makes exactly one Telegram
  call, the diagnostic message to the operator. When it returns the empty list, the
  cycle makes no Telegram call and returns. When it returns a list of N \<ge> 1 leads,
  each of which has a message, and each of the N sends returns, the cycle makes exactly
  the N sends, one per lead in order, and returns.
\<close>

theorem send_leads_to_manager_counts:
  "(fst (get_overdue_leads en w) = Inr None \<longrightarrow>
      tg_requests (trace (snd (send_leads_to_manager en w))) =
        tg_requests (trace w) @ [SendMessage (MANAGER_TELEGRAM_ID en) msg_crm_unreachable None None])
   \<and> (fst (get_overdue_leads en w) = Inr (Some (JArr [])) \<longrightarrow>
        fst (send_leads_to_manager en w) = Inr () \<and>
        tg_requests (trace (snd (send_leads_to_manager en w))) = tg_requests (trace w))
   \<and> (fst (get_overdue_leads en w) = Inr (Some (JArr leads)) \<and> leads \<noteq> [] \<and>
       map (lead_message en) leads = map Some msgs \<and>
       (\<forall>i<length leads. tg_script en (n_tg w + i) = TgOk) \<longrightarrow>
        fst (send_leads_to_manager en w) = Inr () \<and>
        tg_requests (trace (snd (send_leads_to_manager en w))) = tg_requests (trace w) @ msgs \<and>
        length msgs = length leads)"
proof (intro conjI impI)
  assume "fst (get_overdue_leads en w) = Inr None"
  then show "tg_requests (trace (snd (send_leads_to_manager en w))) =
        tg_requests (trace w) @ [SendMessage (MANAGER_TELEGRAM_ID en) msg_crm_unreachable None None]"
    using get_overdue_leads_tg_requests[of en w]
    by (cases "get_overdue_leads en w"; cases "tg_script en (n_tg (snd (get_overdue_leads en w)))")
       (simp_all add: send_leads_to_manager_def tg_call_def emit_def Let_def tg_requests_append)
next
  assume e: "fst (get_overdue_leads en w) = Inr (Some (JArr []))"
  show "fst (send_leads_to_manager en w) = Inr ()"
    by (simp add: send_leads_to_manager_list[OF e])
  show "tg_requests (trace (snd (send_leads_to_manager en w))) = tg_requests (trace w)"
    by (simp add: send_leads_to_manager_list[OF e] get_overdue_leads_tg_requests)
next
  assume a: "fst (get_overdue_leads en w) = Inr (Some (JArr leads)) \<and> leads \<noteq> [] \<and>
       map (lead_message en) leads = map Some msgs \<and>
       (\<forall>i<length leads. tg_script en (n_tg w + i) = TgOk)"
  let ?w1 = "snd (get_overdue_leads en w)"
  have ok: "\<forall>i<length leads. tg_script en (n_tg ?w1 + i) = TgOk"
    using a by (simp add: get_overdue_leads_n_tg)
  have msgs: "map (lead_message en) leads = map Some msgs" using a by simp
  have run: "send_leads_to_manager en w =
      (Inr (), ?w1\<lparr>n_tg := n_tg ?w1 + length leads,
                    trace := trace ?w1 @ map (\<lambda>m. Tg m TgOk) msgs\<rparr>)"
    using send_leads_to_manager_list[of en w leads] send_each_prefix[OF msgs ok, of "[]"] a
    by simp
  have sent: "tg_requests (map (\<lambda>m. Tg m TgOk) msgs) = msgs"
    by (induction msgs) simp_all
  show "fst (send_leads_to_manager en w) = Inr ()" by (simp add: run)
  show "tg_requests (trace (snd (send_leads_to_manager en w))) = tg_requests (trace w) @ msgs"
    by (simp add: run tg_requests_append get_overdue_leads_tg_requests sent)
  show "length msgs = length leads"
    using arg_cong[OF msgs, of length] by simp
qed

text \<open>
  The theorem at a failed transport, at an empty result and at a result of two leads;
  the message of lead 42, which has no phone, is written out.
\<close>

theorem send_leads_to_manager_counts_witness:
  "fst (get_overdue_leads env_crm_down init_world) = Inr None
   \<and> tg_requests (trace (snd (send_leads_to_manager env_crm_down init_world))) =
       [SendMessage (asc ''100200300'') msg_crm_unreachable None None]
   \<and> fst (get_overdue_leads env_no_leads init_world) = Inr (Some (JArr []))
   \<and> tg_requests (trace (snd (send_leads_to_manager env_no_leads init_world))) = []
   \<and> fst (get_overdue_leads env_two_leads init_world) = Inr (Some (JArr [lead_42, lead_7]))
   \<and> tg_script env_two_leads 0 = TgOk \<and> tg_script env_two_leads 1 = TgOk
   \<and> fst (send_leads_to_manager env_two_leads init_world) = Inr ()
   \<and> map Some (tg_requests (trace (snd (send_leads_to_manager env_two_leads init_world)))) =
       [lead_message env_two_leads lead_42, lead_message env_two_leads lead_7]
   \<and> lead_message env_two_leads lead_42 =
       Some (SendMessage (asc ''100200300'') text_42
              (Some [[(btn_called, asc ''called:42''), (btn_wrote, asc ''wrote:42''),
                      (btn_delay, asc ''delay:42'')]])
              (Some markdown))"
proof -
  have a: "fst (get_overdue_leads env_crm_down init_world) = Inr None"
    by (simp add: env_defs fetch_defs example_defs)
  have b: "fst (get_overdue_leads env_no_leads init_world) = Inr (Some (JArr []))"
    by (simp add: env_defs fetch_defs example_defs asc_eq_iff)
  have c: "fst (get_overdue_leads env_two_leads init_world) = Inr (Some (JArr [lead_42, lead_7]))"
    by (simp add: env_defs fetch_defs example_defs asc_eq_iff)
  have m42: "lead_message env_two_leads lead_42 =
       Some (SendMessage (asc ''100200300'') text_42
              (Some [[(btn_called, asc ''called:42''), (btn_wrote, asc ''wrote:42''),
                      (btn_delay, asc ''delay:42'')]])
              (Some markdown))"
    by (simp add: render_defs lead_42_def text_42_def env_defs demo_env_def asc_eq_iff asc_def)
  have "lead_message env_two_leads lead_7 \<noteq> None"
    by (simp add: render_defs lead_7_def asc_eq_iff)
  then obtain m7 where m7: "lead_message env_two_leads lead_7 = Some m7" by blast
  have ok: "tg_script env_two_leads 0 = TgOk" "tg_script env_two_leads 1 = TgOk"
    by (simp_all add: env_defs example_defs)
  have oks: "\<forall>i<length [lead_42, lead_7]. tg_script env_two_leads (n_tg init_world + i) = TgOk"
    by (simp add: env_defs example_defs)
  have msgs: "map (lead_message env_two_leads) [lead_42, lead_7] = map Some [the (lead_message env_two_leads lead_42), m7]"
    by (simp add: m42 m7)
  have t0: "tg_requests (trace init_world) = []" "MANAGER_TELEGRAM_ID env_crm_down = asc ''100200300''"
    by (simp_all add: init_world_def env_defs demo_env_def)
  from send_leads_to_manager_counts[of env_crm_down init_world "[]" "[]"]
       send_leads_to_manager_counts[of env_no_leads init_world "[]" "[]"]
       send_leads_to_manager_counts[of env_two_leads init_world "[lead_42, lead_7]"
          "[the (lead_message env_two_leads lead_42), m7]"]
       a b c ok oks msgs m7
  show ?thesis
    by (simp add: t0 m42)
qed

section \<open>The phone number of a lead\<close>

lemma lead_text_no_phone:
  "map_of kvs (asc ''ID'') = Some i \<Longrightarrow> map_of kvs (asc ''TITLE'') = Some t \<Longrightarrow>
   map_of kvs (asc ''PHONE'') = None \<Longrightarrow>
   lead_text en (JObj kvs) =
     Inr (i, text_head @ py_str en i @ text_title @ py_str en t @ text_phone
               @ phone_not_given @ text_tail)"
  by (simp add: lead_text_def py_str_def)

lemma lead_text_empty_phone_list:
  "map_of kvs (asc ''ID'') = Some i \<Longrightarrow> map_of kvs (asc ''TITLE'') = Some t \<Longrightarrow>
   map_of kvs (asc ''PHONE'') = Some (JArr []) \<Longrightarrow>
   lead_text en (JObj kvs) = Inl IndexError"
  by (simp add: lead_text_def)

text \<open>
  C9. For a lead with \<open>ID\<close> and \<open>TITLE\<close> and no \<open>PHONE\<close> the text is made with the
  default "not given". For a lead with \<open>ID\<close>, \<open>TITLE\<close> and a \<open>PHONE\<close> that is the
  empty list, taking element 0 of the list raises \<open>IndexError\<close>: the lead has no text,
  and a cycle that reaches it after sending the leads before it ends with
  \<open>IndexError\<close>, having sent only those.
\<close>

theorem phone_absent_or_empty_list:
  "(map_of kvs (asc ''ID'') = Some i \<and> map_of kvs (asc ''TITLE'') = Some t \<and>
    map_of kvs (asc ''PHONE'') = None \<longrightarrow>
      lead_text en (JObj kvs) =
        Inr (i, text_head @ py_str en i @ text_title @ py_str en t @ text_phone
                  @ phone_not_given @ text_tail))
   \<and> (map_of kvs' (asc ''ID'') = Some i' \<and> map_of kvs' (asc ''TITLE'') = Some t' \<and>
       map_of kvs' (asc ''PHONE'') = Some (JArr []) \<longrightarrow>
        py_getitem0 (JArr []) = Inl IndexError \<and>
        lead_text en (JObj kvs') = Inl IndexError \<and>
        (fst (get_overdue_leads en w) = Inr (Some (JArr (pre @ JObj kvs' # post))) \<and>
         map (lead_message en) pre = map Some msgs \<and>
         (\<forall>k<length pre. tg_script en (n_tg w + k) = TgOk) \<longrightarrow>
           fst (send_leads_to_manager en w) = Inl IndexError \<and>
           tg_requests (trace (snd (send_leads_to_manager en w))) = tg_requests (trace w) @ msgs))"
proof (intro conjI impI)
  assume "map_of kvs (asc ''ID'') = Some i \<and> map_of kvs (asc ''TITLE'') = Some t \<and>
    map_of kvs (asc ''PHONE'') = None"
  then show "lead_text en (JObj kvs) =
        Inr (i, text_head @ py_str en i @ text_title @ py_str en t @ text_phone
                  @ phone_not_given @ text_tail)"
    by (simp add: lead_text_no_phone)
next
  show "py_getitem0 (JArr []) = Inl IndexError" by simp
next
  assume "map_of kvs' (asc ''ID'') = Some i' \<and> map_of kvs' (asc ''TITLE'') = Some t' \<and>
       map_of kvs' (asc ''PHONE'') = Some (JArr [])"
  then show "lead_text en (JObj kvs') = Inl IndexError"
    by (simp add: lead_text_empty_phone_list)
next
  assume k: "map_of kvs' (asc ''ID'') = Some i' \<and> map_of kvs' (asc ''TITLE'') = Some t' \<and>
       map_of kvs' (asc ''PHONE'') = Some (JArr [])"
    and c: "fst (get_overdue_leads en w) = Inr (Some (JArr (pre @ JObj kvs' # post))) \<and>
         map (lead_message en) pre = map Some msgs \<and>
         (\<forall>k<length pre. tg_script en (n_tg w + k) = TgOk)"
  let ?w1 = "snd (get_overdue_leads en w)"
  let ?w2 = "?w1\<lparr>n_tg := n_tg ?w1 + length pre,
                    trace := trace ?w1 @ map (\<lambda>m. Tg m TgOk) msgs\<rparr>"
  have raise: "lead_text en (JObj kvs') = Inl IndexError"
    using k by (simp add: lead_text_empty_phone_list)
  have ok: "\<forall>i<length pre. tg_script en (n_tg ?w1 + i) = TgOk"
    using c by (simp add: get_overdue_leads_n_tg)
  have msgs: "map (lead_message en) pre = map Some msgs" using c by simp
  have "send_leads_to_manager en w = send_each en (pre @ JObj kvs' # post) ?w1"
    using c by (simp add: send_leads_to_manager_list)
  also have "\<dots> = send_each en (JObj kvs' # post) ?w2"
    by (rule send_each_prefix[OF msgs ok])
  also have "\<dots> = (Inl IndexError, ?w2)"
    by (rule send_each_render_raises[OF raise])
  finally have run: "send_leads_to_manager en w = (Inl IndexError, ?w2)" .
  have sent: "tg_requests (map (\<lambda>m. Tg m TgOk) msgs) = msgs"
    by (induction msgs) simp_all
  show "fst (send_leads_to_manager en w) = Inl IndexError" by (simp add: run)
  show "tg_requests (trace (snd (send_leads_to_manager en w))) = tg_requests (trace w) @ msgs"
    by (simp add: run tg_requests_append get_overdue_leads_tg_requests sent)
qed

text \<open>
  The theorem at lead 42 (no phone) and at a fetched list whose second lead has an empty
  phone list.
\<close>

theorem phone_absent_or_empty_list_witness:
  "lead_text env_empty_phone_list lead_42 = Inr (JStr (asc ''42''), text_42)
   \<and> lead_text env_empty_phone_list lead_no_phones = Inl IndexError
   \<and> fst (get_overdue_leads env_empty_phone_list init_world) =
       Inr (Some (JArr ([lead_42] @ lead_no_phones # [lead_7])))
   \<and> tg_script env_empty_phone_list 0 = TgOk
   \<and> fst (send_leads_to_manager env_empty_phone_list init_world) = Inl IndexError
   \<and> map Some (tg_requests (trace (snd (send_leads_to_manager env_empty_phone_list init_world))))
       = [lead_message env_empty_phone_list lead_42]"
proof -
  let ?E = env_empty_phone_list
  have f: "fst (get_overdue_leads ?E init_world) =
       Inr (Some (JArr ([lead_42] @ lead_no_phones # [lead_7])))"
    by (simp add: env_defs fetch_defs example_defs asc_eq_iff)
  have "lead_message ?E lead_42 \<noteq> None"
    by (simp add: render_defs lead_42_def asc_eq_iff)
  then obtain m where m: "lead_message ?E lead_42 = Some m" by blast
  have pre: "map (lead_message ?E) [lead_42] = map Some [m]" by (simp add: m)
  have ok: "\<forall>k<length [lead_42]. tg_script ?E (n_tg init_world + k) = TgOk"
    and ok0: "tg_script ?E 0 = TgOk"
    by (simp_all add: env_defs example_defs)
  have k1: "map_of [(asc ''ID'', JStr (asc ''42'')), (asc ''TITLE'', JStr (asc ''Acme Corp''))] (asc ''ID'')
              = Some (JStr (asc ''42''))
            \<and> map_of [(asc ''ID'', JStr (asc ''42'')), (asc ''TITLE'', JStr (asc ''Acme Corp''))] (asc ''TITLE'')
              = Some (JStr (asc ''Acme Corp''))
            \<and> map_of [(asc ''ID'', JStr (asc ''42'')), (asc ''TITLE'', JStr (asc ''Acme Corp''))] (asc ''PHONE'')
              = None"
    by (simp add: asc_eq_iff)
  have k2: "map_of [(asc ''ID'', JStr (asc ''11'')), (asc ''TITLE'', JStr (asc ''Delta'')),
                    (asc ''PHONE'', JArr [])] (asc ''ID'') = Some (JStr (asc ''11''))
            \<and> map_of [(asc ''ID'', JStr (asc ''11'')), (asc ''TITLE'', JStr (asc ''Delta'')),
                    (asc ''PHONE'', JArr [])] (asc ''TITLE'') = Some (JStr (asc ''Delta''))
            \<and> map_of [(asc ''ID'', JStr (asc ''11'')), (asc ''TITLE'', JStr (asc ''Delta'')),
                    (asc ''PHONE'', JArr [])] (asc ''PHONE'') = Some (JArr [])"
    by (simp add: asc_eq_iff)
  have t0: "tg_requests (trace init_world) = []" by (simp add: init_world_def)
  from phone_absent_or_empty_list[where en = ?E and w = init_world
         and kvs = "[(asc ''ID'', JStr (asc ''42'')), (asc ''TITLE'', JStr (asc ''Acme Corp''))]"
         and i = "JStr (asc ''42'')" and t = "JStr (asc ''Acme Corp'')"
         and kvs' = "[(asc ''ID'', JStr (asc ''11'')), (asc ''TITLE'', JStr (asc ''Delta'')),
                      (asc ''PHONE'', JArr [])]"
         and i' = "JStr (asc ''11'')" and t' = "JStr (asc ''Delta'')"
         and pre = "[lead_42]" and post = "[lead_7]" and msgs = "[m]"]
       k1 k2 f pre ok ok0
  show ?thesis
    by (simp add: lead_42_def lead_no_phones_def text_42_def py_str_def m t0)
qed

section \<open>The handlers of the three actions\<close>

lemma split_on_nonempty: "split_on c s \<noteq> []"
  by (induction s) (auto split: list.splits)

lemma split_on_prefix:
  "c \<notin> set p \<Longrightarrow> split_on c (p @ c # rest) = p # split_on c rest"
  by (induction p) (auto split: list.splits)

lemma split_on_head: "\<exists>ps. split_on c s = takeWhile (\<lambda>x. x \<noteq> c) s # ps"
  by (induction s) (auto split: list.splits)

lemma action_prefix_colon: "\<exists>p. action_prefix a = p @ [58] \<and> 58 \<notin> set p"
  by (cases a) (simp_all add: asc_def)

lemma lead_id_of_data:
  "py_index1 (split_on 58 (action_prefix a @ rest)) = Inr (takeWhile (\<lambda>x. x \<noteq> 58) rest)"
proof -
  obtain p where p: "action_prefix a = p @ [58]" "58 \<notin> set p"
    using action_prefix_colon by blast
  obtain ps where ps: "split_on 58 rest = takeWhile (\<lambda>x. x \<noteq> 58) rest # ps"
    using split_on_head by blast
  show ?thesis
    using split_on_prefix[OF p(2), of rest] by (simp add: p(1) ps py_index1_def)
qed

lemma add_comment_to_lead_none:
  "request_fails (http_script en (n_http w)) \<Longrightarrow>
   fst (add_comment_to_lead en lead_id text w) = None"
  by (cases "http_script en (n_http w)")
     (auto simp: add_comment_to_lead_def prim_defs request_fails_def Let_def)

lemma create_task_for_lead_none:
  "request_fails (http_script en (n_http w)) \<Longrightarrow>
   fst (create_task_for_lead en lead_id w) = None"
  by (cases "http_script en (n_http w)")
     (auto simp: create_task_for_lead_def prim_defs request_fails_def Let_def)

lemma add_comment_to_lead_frame:
  "n_tg (snd (add_comment_to_lead en lead_id text w)) = n_tg w"
  "n_http (snd (add_comment_to_lead en lead_id text w)) = Suc (n_http w)"
  "n_clock (snd (add_comment_to_lead en lead_id text w)) = n_clock w"
  "tg_requests (trace (snd (add_comment_to_lead en lead_id text w))) = tg_requests (trace w)"
  "http_requests (trace (snd (add_comment_to_lead en lead_id text w))) =
     http_requests (trace w) @
       [(BITRIX_WEBHOOK en @ asc ''crm.timeline.comment.add'',
         JObj [(asc ''fields'',
                  JObj [(asc ''ENTITY_ID'', JStr lead_id),
                        (asc ''ENTITY_TYPE'', JStr (asc ''lead'')),
                        (asc ''COMMENT'', JStr text)])])]"
  by (simp_all add: add_comment_to_lead_def prim_defs Let_def tg_requests_append
      http_requests_append split: http_outcome.split option.split prod.split)

lemma create_task_for_lead_frame:
  "n_tg (snd (create_task_for_lead en lead_id w)) = n_tg w"
  "n_http (snd (create_task_for_lead en lead_id w)) = Suc (n_http w)"
  "n_clock (snd (create_task_for_lead en lead_id w)) = Suc (n_clock w)"
  "tg_requests (trace (snd (create_task_for_lead en lead_id w))) = tg_requests (trace w)"
  "http_requests (trace (snd (create_task_for_lead en lead_id w))) =
     http_requests (trace w) @
       [(BITRIX_WEBHOOK en @ asc ''tasks.task.add'',
         JObj [(asc ''fields'',
                  JObj [(asc ''TITLE'', JStr (task_title @ lead_id)),
                        (asc ''RESPONSIBLE_ID'', JInt 1),
                        (asc ''DEADLINE'',
                           JStr (isoformat en (clock_script en (n_clock w) + 7200000000))),
                        (asc ''UF_CRM_TASK'', JArr [JStr (asc ''L_'' @ lead_id)])])])]"
  by (simp_all add: create_task_for_lead_def prim_defs Let_def tg_requests_append two_hours_def
      http_requests_append split: http_outcome.split option.split prod.split)

lemma edit_then_answer:
  fixes en t md ack w1
  defines "X \<equiv> (case tg_call en (EditText t md) w1 of
      (Inl e, w2) \<Rightarrow> (Inl e, w2)
    | (Inr u, w2) \<Rightarrow> tg_call en (CallbackAnswer ack) w2)"
  shows "tg_requests (trace (snd X)) =
     tg_requests (trace w1) @ EditText t md #
       (if tg_script en (n_tg w1) = TgOk then [CallbackAnswer ack] else [])"
    and "http_requests (trace (snd X)) = http_requests (trace w1)"
    and "n_http (snd X) = n_http w1"
    and "n_clock (snd X) = n_clock w1"
    and "n_tg (snd X) =
           (if tg_script en (n_tg w1) = TgOk then Suc (Suc (n_tg w1)) else Suc (n_tg w1))"
    and "(fst X = Inr ()) =
           (tg_script en (n_tg w1) = TgOk \<and> tg_script en (Suc (n_tg w1)) = TgOk)"
  unfolding X_def
  by (cases "tg_script en (n_tg w1)"; cases "tg_script en (Suc (n_tg w1))";
      simp add: tg_call_def emit_def Let_def tg_requests_append http_requests_append)+

lemma handler_unfold:
  assumes "cb_data cb = action_prefix a @ rest"
  shows "handler a en cb w =
    (case tg_call en (EditText (cb_message_text cb @ status_label a) (Some markdown))
            (case a of
               Called \<Rightarrow> snd (add_comment_to_lead en (takeWhile (\<lambda>x. x \<noteq> 58) rest) comment_called w)
             | Wrote \<Rightarrow> snd (add_comment_to_lead en (takeWhile (\<lambda>x. x \<noteq> 58) rest) comment_wrote w)
             | Delay \<Rightarrow> snd (create_task_for_lead en (takeWhile (\<lambda>x. x \<noteq> 58) rest) w)) of
      (Inl e, w2) \<Rightarrow> (Inl e, w2)
    | (Inr u, w2) \<Rightarrow> tg_call en (CallbackAnswer (ack_text a @ takeWhile (\<lambda>x. x \<noteq> 58) rest)) w2)"
  using lead_id_of_data[of a rest]
  by (cases a)
     (auto simp add: process_callback_called_def process_callback_wrote_def
        process_callback_delay_def assms split: prod.split sum.split)

lemma handler_run:
  assumes "cb_data cb = action_prefix a @ rest"
  shows "tg_requests (trace (snd (handler a en cb w))) =
           tg_requests (trace w) @ EditText (cb_message_text cb @ status_label a) (Some markdown) #
             (if tg_script en (n_tg w) = TgOk
              then [CallbackAnswer (ack_text a @ takeWhile (\<lambda>x. x \<noteq> 58) rest)] else [])"
    and "n_http (snd (handler a en cb w)) = Suc (n_http w)"
    and "n_tg (snd (handler a en cb w)) =
           (if tg_script en (n_tg w) = TgOk then Suc (Suc (n_tg w)) else Suc (n_tg w))"
    and "(fst (handler a en cb w) = Inr ()) =
           (tg_script en (n_tg w) = TgOk \<and> tg_script en (Suc (n_tg w)) = TgOk)"
  unfolding handler_unfold[OF assms]
  by (cases a; simp add: edit_then_answer add_comment_to_lead_frame create_task_for_lead_frame)+

lemma handler_http:
  assumes "cb_data cb = action_prefix a @ rest"
  shows "http_requests (trace (snd (handler a en cb w))) =
           http_requests (trace
             (case a of
               Called \<Rightarrow> snd (add_comment_to_lead en (takeWhile (\<lambda>x. x \<noteq> 58) rest) comment_called w)
             | Wrote \<Rightarrow> snd (add_comment_to_lead en (takeWhile (\<lambda>x. x \<noteq> 58) rest) comment_wrote w)
             | Delay \<Rightarrow> snd (create_task_for_lead en (takeWhile (\<lambda>x. x \<noteq> 58) rest) w)))"
  unfolding handler_unfold[OF assms]
  by (simp add: edit_then_answer)

lemma dispatch_callback_handler:
  "cb_data cb = action_prefix a @ rest \<Longrightarrow> dispatch_callback en cb w = handler a en cb w"
  by (cases a) (simp_all add: dispatch_callback_def startswith_def asc_def)

text \<open>
  C4, as stated, fails: the CRM cannot be reached, so the gateway call of the tap on
  "Called" returns \<open>None\<close>; the handler calls \<open>edit_text\<close>, the call is refused,
  and the exception leaves the handler before \<open>callback.answer\<close>: the tap is not
  acknowledged.
\<close>

theorem refused_edit_leaves_tap_unanswered:
  "request_fails (http_script env_edit_refused (n_http init_world))
   \<and> fst (add_comment_to_lead env_edit_refused (asc ''42'') comment_called init_world) = None
   \<and> tg_requests (trace (snd (process_callback_called env_edit_refused
         (tap Called (asc ''42'') text_42) init_world))) =
       [EditText (text_42 @ status_called) (Some markdown)]
   \<and> fst (process_callback_called env_edit_refused
         (tap Called (asc ''42'') text_42) init_world) = Inl TelegramError"
proof -
  let ?E = env_edit_refused
  let ?cb = "tap Called (asc ''42'') text_42"
  have d: "cb_data ?cb = action_prefix Called @ asc ''42''" by (simp add: tap_def)
  have rf: "request_fails (http_script ?E (n_http init_world))"
    by (simp add: env_defs example_defs request_fails_def)
  have refused: "tg_script ?E (n_tg init_world) = TgFailed"
    by (simp add: env_defs example_defs)
  have t0: "tg_requests (trace init_world) = []" by (simp add: init_world_def)
  have reqs: "tg_requests (trace (snd (process_callback_called ?E ?cb init_world))) =
      [EditText (text_42 @ status_called) (Some markdown)]"
    using handler_run(1)[OF d, of ?E init_world] refused by (simp add: t0 tap_def)
  let ?w1 = "snd (add_comment_to_lead ?E (takeWhile (\<lambda>x. x \<noteq> 58) (asc ''42'')) comment_called init_world)"
  have refused1: "tg_script ?E (n_tg ?w1) = TgFailed"
    using refused by (simp add: add_comment_to_lead_frame)
  have res: "fst (process_callback_called ?E ?cb init_world) = Inl TelegramError"
    using handler_unfold[OF d, of ?E init_world] refused1
    by (simp add: tg_call_def Let_def)
  from rf add_comment_to_lead_none[OF rf] reqs res show ?thesis by simp
qed

text \<open>
  C4, amended. Let the callback data be the prefix of an action followed by anything,
  and let the HTTP request of the handler fail (transport, error status or a body that
  is not JSON). Then the gateway function returns \<open>None\<close>, and the handler goes on:
  it calls \<open>edit_text\<close> with the message text followed by the status line of the
  action, and, provided that call returns, answers the tap with the text of the action
  and the lead identifier. The handler returns normally exactly when its two Telegram
  calls return; the outcome of the gateway call plays no part.
\<close>

theorem gateway_failure_does_not_abort_handler:
  assumes "cb_data cb = action_prefix a @ rest"
    and "request_fails (http_script en (n_http w))"
  shows "(case a of
            Called \<Rightarrow> fst (add_comment_to_lead en (takeWhile (\<lambda>x. x \<noteq> 58) rest) comment_called w)
          | Wrote \<Rightarrow> fst (add_comment_to_lead en (takeWhile (\<lambda>x. x \<noteq> 58) rest) comment_wrote w)
          | Delay \<Rightarrow> fst (create_task_for_lead en (takeWhile (\<lambda>x. x \<noteq> 58) rest) w)) = None
     \<and> tg_requests (trace (snd (handler a en cb w))) =
           tg_requests (trace w) @ EditText (cb_message_text cb @ status_label a) (Some markdown) #
             (if tg_script en (n_tg w) = TgOk
              then [CallbackAnswer (ack_text a @ takeWhile (\<lambda>x. x \<noteq> 58) rest)] else [])
     \<and> (fst (handler a en cb w) = Inr ()) =
           (tg_script en (n_tg w) = TgOk \<and> tg_script en (Suc (n_tg w)) = TgOk)"
  using assms(2) handler_run(1,4)[OF assms(1), of en w]
  by (cases a) (simp_all add: add_comment_to_lead_none create_task_for_lead_none)

text \<open>
  The theorem at a tap on "Called" for lead 42 while the CRM cannot be reached.
\<close>

theorem gateway_failure_does_not_abort_handler_witness:
  "cb_data (tap Called (asc ''42'') text_42) = action_prefix Called @ asc ''42''
   \<and> request_fails (http_script (demo_env TransportError tg_all_ok) (n_http init_world))
   \<and> fst (add_comment_to_lead (demo_env TransportError tg_all_ok) (asc ''42'') comment_called init_world) = None
   \<and> tg_requests (trace (snd (process_callback_called (demo_env TransportError tg_all_ok)
          (tap Called (asc ''42'') text_42) init_world))) =
        [EditText (text_42 @ status_called) (Some markdown), CallbackAnswer (ack_called @ asc ''42'')]
   \<and> fst (process_callback_called (demo_env TransportError tg_all_ok)
          (tap Called (asc ''42'') text_42) init_world) = Inr ()"
  using gateway_failure_does_not_abort_handler[of "tap Called (asc ''42'') text_42" Called "asc ''42''"
          "demo_env TransportError tg_all_ok" init_world]
  by (simp add: example_defs request_fails_def asc_def)

text \<open>
  C7. A callback query whose data begins with the prefix of an action is routed to the
  handler of that action, which makes exactly one HTTP request: for Called and Wrote
  the timeline comment with the text of the action, for Delay the task whose deadline
  is the clock at the call plus 7200000000 microseconds (two hours). The first Telegram
  call is \<open>edit_text\<close> with the message text followed by the status line of that
  action.
\<close>

theorem tap_makes_one_matching_gateway_call:
  assumes "cb_data cb = action_prefix a @ rest"
  shows "http_requests (trace (snd (dispatch_callback en cb w))) =
           http_requests (trace w) @
             [case a of
                Called \<Rightarrow>
                  (BITRIX_WEBHOOK en @ asc ''crm.timeline.comment.add'',
                   JObj [(asc ''fields'',
                     JObj [(asc ''ENTITY_ID'', JStr (takeWhile (\<lambda>x. x \<noteq> 58) rest)),
                           (asc ''ENTITY_TYPE'', JStr (asc ''lead'')),
                           (asc ''COMMENT'', JStr comment_called)])])
              | Wrote \<Rightarrow>
                  (BITRIX_WEBHOOK en @ asc ''crm.timeline.comment.add'',
                   JObj [(asc ''fields'',
                     JObj [(asc ''ENTITY_ID'', JStr (takeWhile (\<lambda>x. x \<noteq> 58) rest)),
                           (asc ''ENTITY_TYPE'', JStr (asc ''lead'')),
                           (asc ''COMMENT'', JStr comment_wrote)])])
              | Delay \<Rightarrow>
                  (BITRIX_WEBHOOK en @ asc ''tasks.task.add'',
                   JObj [(asc ''fields'',
                     JObj [(asc ''TITLE'', JStr (task_title @ takeWhile (\<lambda>x. x \<noteq> 58) rest)),
                           (asc ''RESPONSIBLE_ID'', JInt 1),
                           (asc ''DEADLINE'',
                              JStr (isoformat en (clock_script en (n_clock w) + 7200000000))),
                           (asc ''UF_CRM_TASK'',
                              JArr [JStr (asc ''L_'' @ takeWhile (\<lambda>x. x \<noteq> 58) rest)])])])]
     \<and> tg_requests (trace (snd (dispatch_callback en cb w))) =
           tg_requests (trace w) @
             EditText (cb_message_text cb @
                 (case a of Called \<Rightarrow> status_called | Wrote \<Rightarrow> status_wrote | Delay \<Rightarrow> status_delay))
               (Some markdown) #
             (if tg_script en (n_tg w) = TgOk
              then [CallbackAnswer (ack_text a @ takeWhile (\<lambda>x. x \<noteq> 58) rest)] else [])"
  unfolding dispatch_callback_handler[OF assms]
  using handler_run(1)[OF assms, of en w] handler_http[OF assms, of en w]
  by (cases a) (simp_all add: add_comment_to_lead_frame create_task_for_lead_frame)

text \<open>
  The theorem at a tap on "Postpone" for lead 42.
\<close>

theorem tap_makes_one_matching_gateway_call_witness:
  "cb_data (tap Delay (asc ''42'') text_42) = action_prefix Delay @ asc ''42''
   \<and> http_requests (trace (snd (dispatch_callback
         (demo_env (Response 200 (Some (JObj [(asc ''result'', JObj [])]))) tg_all_ok)
         (tap Delay (asc ''42'') text_42) init_world))) =
       [(asc ''https://example.bitrix24.ru/rest/1/token/tasks.task.add'',
         JObj [(asc ''fields'',
            JObj [(asc ''TITLE'', JStr (task_title @ asc ''42'')),
                  (asc ''RESPONSIBLE_ID'', JInt 1),
                  (asc ''DEADLINE'', JStr (demo_isoformat (1762180000000000 + 7200000000))),
                  (asc ''UF_CRM_TASK'', JArr [JStr (asc ''L_42'')])])])]
   \<and> tg_requests (trace (snd (dispatch_callback
         (demo_env (Response 200 (Some (JObj [(asc ''result'', JObj [])]))) tg_all_ok)
         (tap Delay (asc ''42'') text_42) init_world))) =
       [EditText (text_42 @ status_delay) (Some markdown), CallbackAnswer (ack_delay @ asc ''42'')]"
  using tap_makes_one_matching_gateway_call[of "tap Delay (asc ''42'') text_42" Delay "asc ''42''"
          "demo_env (Response 200 (Some (JObj [(asc ''result'', JObj [])]))) tg_all_ok" init_world]
  by (simp add: example_defs asc_def)

text \<open>
  C10. Apply the handler of an action to a notification, let the edit be accepted, and
  apply the same handler again to the notification, whose text is now the one the first
  edit set. Then two HTTP requests have been made (for Called, the same comment request
  twice), and the second edit sets the original text followed by the status line
  twice: no handler looks at the text before appending.
\<close>

theorem resolving_twice_appends_label_twice:
  assumes "cb_data cb = action_prefix a @ rest"
    and "tg_script en (n_tg w) = TgOk"
  shows "length (http_requests (trace (snd (handler a en
             (cb\<lparr>cb_message_text := cb_message_text cb @ status_label a\<rparr>)
             (snd (handler a en cb w)))))) = length (http_requests (trace w)) + 2
     \<and> tg_requests (trace (snd (handler a en
             (cb\<lparr>cb_message_text := cb_message_text cb @ status_label a\<rparr>)
             (snd (handler a en cb w))))) =
         tg_requests (trace w) @
           [EditText (cb_message_text cb @ status_label a) (Some markdown),
            CallbackAnswer (ack_text a @ takeWhile (\<lambda>x. x \<noteq> 58) rest),
            EditText (cb_message_text cb @ status_label a @ status_label a) (Some markdown)] @
           (if tg_script en (n_tg w + 2) = TgOk
            then [CallbackAnswer (ack_text a @ takeWhile (\<lambda>x. x \<noteq> 58) rest)] else [])
     \<and> (a = Called \<longrightarrow>
          http_requests (trace (snd (process_callback_called en
             (cb\<lparr>cb_message_text := cb_message_text cb @ status_called\<rparr>)
             (snd (process_callback_called en cb w))))) =
          http_requests (trace w) @
            replicate 2
              (BITRIX_WEBHOOK en @ asc ''crm.timeline.comment.add'',
               JObj [(asc ''fields'',
                 JObj [(asc ''ENTITY_ID'', JStr (takeWhile (\<lambda>x. x \<noteq> 58) rest)),
                       (asc ''ENTITY_TYPE'', JStr (asc ''lead'')),
                       (asc ''COMMENT'', JStr comment_called)])]))"
proof -
  let ?cb2 = "cb\<lparr>cb_message_text := cb_message_text cb @ status_label a\<rparr>"
  let ?w1 = "snd (handler a en cb w)"
  have d2: "cb_data ?cb2 = action_prefix a @ rest" using assms(1) by simp
  have n1: "n_tg ?w1 = n_tg w + 2"
    using handler_run(3)[OF assms(1), of en w] assms(2) by simp
  have len: "length (http_requests (trace (snd (handler a en c v)))) =
      Suc (length (http_requests (trace v)))"
    if d: "cb_data c = action_prefix a @ rest" for c v
    unfolding handler_http[OF d]
    by (cases a) (simp_all add: add_comment_to_lead_frame create_task_for_lead_frame)
  have A: "length (http_requests (trace (snd (handler a en ?cb2 ?w1)))) =
      length (http_requests (trace w)) + 2"
    by (simp add: len[OF d2] len[OF assms(1)])
  have B: "tg_requests (trace (snd (handler a en ?cb2 ?w1))) =
         tg_requests (trace w) @
           [EditText (cb_message_text cb @ status_label a) (Some markdown),
            CallbackAnswer (ack_text a @ takeWhile (\<lambda>x. x \<noteq> 58) rest),
            EditText (cb_message_text cb @ status_label a @ status_label a) (Some markdown)] @
           (if tg_script en (n_tg w + 2) = TgOk
            then [CallbackAnswer (ack_text a @ takeWhile (\<lambda>x. x \<noteq> 58) rest)] else [])"
    using handler_run(1)[OF d2, of en ?w1] handler_run(1)[OF assms(1), of en w] assms(2)
    by (simp add: n1)
  have C: "a = Called \<longrightarrow>
          http_requests (trace (snd (process_callback_called en
             (cb\<lparr>cb_message_text := cb_message_text cb @ status_called\<rparr>)
             (snd (process_callback_called en cb w))))) =
          http_requests (trace w) @
            replicate 2
              (BITRIX_WEBHOOK en @ asc ''crm.timeline.comment.add'',
               JObj [(asc ''fields'',
                 JObj [(asc ''ENTITY_ID'', JStr (takeWhile (\<lambda>x. x \<noteq> 58) rest)),
                       (asc ''ENTITY_TYPE'', JStr (asc ''lead'')),
                       (asc ''COMMENT'', JStr comment_called)])])"
  proof
    assume c: "a = Called"
    show "http_requests (trace (snd (process_callback_called en
             (cb\<lparr>cb_message_text := cb_message_text cb @ status_called\<rparr>)
             (snd (process_callback_called en cb w))))) =
          http_requests (trace w) @
            replicate 2
              (BITRIX_WEBHOOK en @ asc ''crm.timeline.comment.add'',
               JObj [(asc ''fields'',
                 JObj [(asc ''ENTITY_ID'', JStr (takeWhile (\<lambda>x. x \<noteq> 58) rest)),
                       (asc ''ENTITY_TYPE'', JStr (asc ''lead'')),
                       (asc ''COMMENT'', JStr comment_called)])])"
      using handler_http[OF d2, of en ?w1] handler_http[OF assms(1), of en w]
      by (simp add: c add_comment_to_lead_frame numeral_2_eq_2)
  qed
  from A B C show ?thesis by blast
qed

text \<open>
  The theorem at two taps on "Called" for lead 42.
\<close>

theorem resolving_twice_appends_label_twice_witness:
  "cb_data (tap Called (asc ''42'') text_42) = action_prefix Called @ asc ''42''
   \<and> tg_script (demo_env (Response 200 (Some (JObj [(asc ''result'', JInt 7)]))) tg_all_ok) (n_tg init_world) = TgOk
   \<and> tg_requests (trace (snd (process_callback_called
        (demo_env (Response 200 (Some (JObj [(asc ''result'', JInt 7)]))) tg_all_ok)
        ((tap Called (asc ''42'') text_42)\<lparr>cb_message_text := text_42 @ status_called\<rparr>)
        (snd (process_callback_called
           (demo_env (Response 200 (Some (JObj [(asc ''result'', JInt 7)]))) tg_all_ok)
           (tap Called (asc ''42'') text_42) init_world))))) =
      [EditText (text_42 @ status_called) (Some markdown),
       CallbackAnswer (ack_called @ asc ''42''),
       EditText (text_42 @ status_called @ status_called) (Some markdown),
       CallbackAnswer (ack_called @ asc ''42'')]
   \<and> length (http_requests (trace (snd (process_callback_called
        (demo_env (Response 200 (Some (JObj [(asc ''result'', JInt 7)]))) tg_all_ok)
        ((tap Called (asc ''42'') text_42)\<lparr>cb_message_text := text_42 @ status_called\<rparr>)
        (snd (process_callback_called
           (demo_env (Response 200 (Some (JObj [(asc ''result'', JInt 7)]))) tg_all_ok)
           (tap Called (asc ''42'') text_42) init_world)))))) = 2"
  using resolving_twice_appends_label_twice[of "tap Called (asc ''42'') text_42" Called "asc ''42''"
          "demo_env (Response 200 (Some (JObj [(asc ''result'', JInt 7)]))) tg_all_ok" init_world]
  by (simp add: example_defs asc_def)

section \<open>The scheduler handle\<close>

lemma tg_call_sched:
  "periodic_check_task (snd (tg_call en rq w)) = periodic_check_task w"
  "running (snd (tg_call en rq w)) = running w"
  "n_tasks (snd (tg_call en rq w)) = n_tasks w"
  "trace (snd (tg_call en rq w)) = trace w @ [Tg rq (tg_script en (n_tg w))]"
  by (cases "tg_script en (n_tg w)"; simp add: tg_call_def emit_def Let_def)+

lemma turn_on_active:
  "loop_active w \<Longrightarrow>
   turn_on_periodic_check en w = tg_call en (MessageAnswer msg_already_on) w"
  by (cases "periodic_check_task w")
     (simp_all add: loop_active_def turn_on_periodic_check_def task_done_def)

lemma turn_on_idle:
  "\<not> loop_active w \<Longrightarrow>
   turn_on_periodic_check en w =
     tg_call en (MessageAnswer msg_turned_on)
       (w\<lparr>running := insert (n_tasks w) (running w), n_tasks := Suc (n_tasks w),
          trace := trace w @ [CreateTask (n_tasks w) 10],
          periodic_check_task := Some (n_tasks w)\<rparr>)"
  by (cases "periodic_check_task w")
     (simp_all add: loop_active_def turn_on_periodic_check_def task_done_def create_task_def
        emit_def Let_def)

lemma turn_off_idle:
  "\<not> loop_active w \<Longrightarrow>
   turn_off_periodic_check en w = tg_call en (MessageAnswer msg_already_off) w"
  by (cases "periodic_check_task w")
     (simp_all add: loop_active_def turn_off_periodic_check_def task_done_def)

lemma turn_off_active:
  "loop_active w \<Longrightarrow>
   turn_off_periodic_check en w =
     tg_call en (MessageAnswer msg_turned_off)
       (w\<lparr>running := running w - {the (periodic_check_task w)},
          trace := trace w @ [CancelTask (the (periodic_check_task w))],
          periodic_check_task := None\<rparr>)"
  by (cases "periodic_check_task w")
     (simp_all add: loop_active_def turn_off_periodic_check_def task_done_def cancel_def
        emit_def Let_def)

lemma sched_inv_init: "sched_inv init_world"
  by (simp add: sched_inv_def init_world_def)

lemma sched_inv_idle: "sched_inv w \<Longrightarrow> \<not> loop_active w \<Longrightarrow> running w = {}"
  by (cases "periodic_check_task w") (auto simp: sched_inv_def loop_active_def)

lemma sched_inv_busy:
  "sched_inv w \<Longrightarrow> loop_active w \<Longrightarrow> running w = {the (periodic_check_task w)}"
  by (cases "periodic_check_task w") (auto simp: sched_inv_def loop_active_def)

lemma sched_inv_turn_on: "sched_inv w \<Longrightarrow> sched_inv (snd (turn_on_periodic_check en w))"
proof (cases "loop_active w")
  case True
  assume "sched_inv w"
  then show ?thesis by (simp add: turn_on_active[OF True] sched_inv_def tg_call_sched)
next
  case False
  assume inv: "sched_inv w"
  then have "running w = {}"
    using False by (cases "periodic_check_task w") (auto simp: sched_inv_def loop_active_def)
  then show ?thesis
    by (simp add: turn_on_idle[OF False] sched_inv_def tg_call_sched)
qed

lemma sched_inv_turn_off: "sched_inv w \<Longrightarrow> sched_inv (snd (turn_off_periodic_check en w))"
proof (cases "loop_active w")
  case True
  assume inv: "sched_inv w"
  show ?thesis
    by (simp add: turn_off_active[OF True] sched_inv_def tg_call_sched sched_inv_busy[OF inv True])
next
  case False
  assume "sched_inv w"
  then show ?thesis by (simp add: turn_off_idle[OF False] sched_inv_def tg_call_sched)
qed

lemma sched_inv_step: "sched_inv w \<Longrightarrow> sched_inv (step en ev w)"
proof (cases ev)
  case TurnOn
  assume "sched_inv w"
  then show ?thesis by (simp add: TurnOn sched_inv_turn_on)
next
  case TurnOff
  assume "sched_inv w"
  then show ?thesis by (simp add: TurnOff sched_inv_turn_off)
next
  case (TaskEnds t)
  assume "sched_inv w"
  then show ?thesis
    by (cases "periodic_check_task w") (auto simp: TaskEnds sched_inv_def)
qed

lemma sched_inv_run: "sched_inv w \<Longrightarrow> sched_inv (run_events en evs w)"
  by (induction evs arbitrary: w) (simp_all add: sched_inv_step)

lemma sched_inv_card: "sched_inv w \<Longrightarrow> card (running w) \<le> 1"
proof (cases "loop_active w")
  case True
  assume "sched_inv w"
  then show ?thesis by (simp add: sched_inv_busy[OF _ True])
next
  case False
  assume "sched_inv w"
  then show ?thesis by (simp add: sched_inv_idle[OF _ False])
qed

text \<open>
  C5. In every state reached from the start of the process by the two commands and by
  tasks ending, at most one task is not done. If the task named by the global is not
  done, the enable command changes neither the global nor the tasks and answers "already
  on", and the disable command cancels the task, sets the global to \<open>None\<close> and
  leaves no task running. Otherwise the disable command changes neither and answers
  "already off", and the enable command creates one task, with interval 10, and stores
  it in the global.
\<close>

theorem scheduler_handle_is_singleton:
  assumes "w = run_events en evs init_world"
  shows "card (running w) \<le> 1
     \<and> (loop_active w \<longrightarrow>
          periodic_check_task (snd (turn_on_periodic_check en w)) = periodic_check_task w \<and>
          running (snd (turn_on_periodic_check en w)) = running w \<and>
          trace (snd (turn_on_periodic_check en w)) =
            trace w @ [Tg (MessageAnswer msg_already_on) (tg_script en (n_tg w))])
     \<and> (\<not> loop_active w \<longrightarrow>
          periodic_check_task (snd (turn_off_periodic_check en w)) = periodic_check_task w \<and>
          running (snd (turn_off_periodic_check en w)) = running w \<and>
          trace (snd (turn_off_periodic_check en w)) =
            trace w @ [Tg (MessageAnswer msg_already_off) (tg_script en (n_tg w))])
     \<and> (\<not> loop_active w \<longrightarrow>
          periodic_check_task (snd (turn_on_periodic_check en w)) = Some (n_tasks w) \<and>
          running (snd (turn_on_periodic_check en w)) = {n_tasks w} \<and>
          trace (snd (turn_on_periodic_check en w)) =
            trace w @ [CreateTask (n_tasks w) 10,
                       Tg (MessageAnswer msg_turned_on) (tg_script en (n_tg w))])
     \<and> (loop_active w \<longrightarrow>
          periodic_check_task (snd (turn_off_periodic_check en w)) = None \<and>
          running (snd (turn_off_periodic_check en w)) = {} \<and>
          trace (snd (turn_off_periodic_check en w)) =
            trace w @ [CancelTask (the (periodic_check_task w)),
                       Tg (MessageAnswer msg_turned_off) (tg_script en (n_tg w))])"
proof -
  have inv: "sched_inv w"
    unfolding assms by (rule sched_inv_run[OF sched_inv_init])
  show ?thesis
  proof (cases "loop_active w")
    case True
    show ?thesis
      using sched_inv_card[OF inv] sched_inv_busy[OF inv True]
      by (simp add: True turn_on_active turn_off_active tg_call_sched)
  next
    case False
    show ?thesis
      using sched_inv_card[OF inv] sched_inv_idle[OF inv False]
      by (simp add: False turn_on_idle turn_off_idle tg_call_sched)
  qed
qed

text \<open>
  The theorem after one enable command (the loop is active) and at the start (it is
  not).
\<close>

theorem scheduler_handle_is_singleton_witness:
  "loop_active (run_events env_crm_down [TurnOn] init_world)
   \<and> card (running (run_events env_crm_down [TurnOn] init_world)) \<le> 1
   \<and> trace (snd (turn_on_periodic_check env_crm_down (run_events env_crm_down [TurnOn] init_world))) =
       [CreateTask 0 10, Tg (MessageAnswer msg_turned_on) TgOk,
        Tg (MessageAnswer msg_already_on) TgOk]
   \<and> running (snd (turn_on_periodic_check env_crm_down (run_events env_crm_down [TurnOn] init_world))) = {0}
   \<and> periodic_check_task (snd (turn_off_periodic_check env_crm_down
         (run_events env_crm_down [TurnOn] init_world))) = None
   \<and> running (snd (turn_off_periodic_check env_crm_down
         (run_events env_crm_down [TurnOn] init_world))) = {}
   \<and> \<not> loop_active (run_events env_crm_down [] init_world)
   \<and> trace (snd (turn_off_periodic_check env_crm_down (run_events env_crm_down [] init_world))) =
       [Tg (MessageAnswer msg_already_off) TgOk]
   \<and> periodic_check_task (snd (turn_on_periodic_check env_crm_down
         (run_events env_crm_down [] init_world))) = Some 0"
proof -
  let ?E = env_crm_down
  have w1: "run_events ?E [TurnOn] init_world =
      init_world\<lparr>n_tg := 1, running := {0}, n_tasks := 1,
                 trace := [CreateTask 0 10, Tg (MessageAnswer msg_turned_on) TgOk],
                 periodic_check_task := Some 0\<rparr>"
    by (simp add: turn_on_periodic_check_def create_task_def tg_call_def emit_def Let_def
        env_defs example_defs)
  have w0: "run_events ?E [] init_world = init_world" by simp
  have tg: "tg_script ?E 0 = TgOk" "tg_script ?E 1 = TgOk"
    by (simp_all add: env_defs example_defs)
  from scheduler_handle_is_singleton[OF refl, of ?E "[TurnOn]"]
       scheduler_handle_is_singleton[OF refl, of ?E "[]"] tg
  show ?thesis
    unfolding w1 w0
    by (simp add: loop_active_def init_world_def)
qed

section \<open>The periodic loop\<close>

















end
